theory Spec2Isabelle
  imports Main
begin

section \<open>Python values and the errors the collector can raise\<close>

text \<open>
  The collector (\<^verbatim>\<open>spotify_data_collector.py\<close>) handles decoded JSON: \<^verbatim>\<open>None\<close>,
  booleans, integers, strings, lists and dictionaries with string keys. A dictionary is
  an association list in insertion order; a lookup takes the first binding of a key.
  Floating-point leaves (audio descriptors) are only passed through by the code and are
  not represented.
\<close>

datatype json =
    JNull
  | JBool bool
  | JInt int
  | JStr string
  | JList "json list"
  | JObj "(string \<times> json) list"

text \<open>
  Exceptions, all subclasses of Python's \<^verbatim>\<open>Exception\<close>. \<open>ApiError\<close> stands for
  whatever the external client library raises (bad credentials, transport failure,
  rate limit).
\<close>

datatype pyerr =
    AttributeError
  | TypeError
  | KeyError string
  | ValueError
  | RuntimeError string
  | ApiError string

text \<open>Truth value testing: \<^verbatim>\<open>if x\<close>, \<^verbatim>\<open>not x\<close>, \<^verbatim>\<open>x or y\<close>.\<close>

fun truthy :: "json \<Rightarrow> bool" where
  "truthy JNull = False"
| "truthy (JBool b) = b"
| "truthy (JInt i) = (i \<noteq> 0)"
| "truthy (JStr s) = (s \<noteq> [])"
| "truthy (JList xs) = (xs \<noteq> [])"
| "truthy (JObj kvs) = (kvs \<noteq> [])"

definition py_or :: "json \<Rightarrow> json \<Rightarrow> json" where
  "py_or a b = (if truthy a then a else b)"

text \<open>\<^verbatim>\<open>v.get(k, d)\<close>: only a dictionary has the method.\<close>

fun dict_get :: "json \<Rightarrow> string \<Rightarrow> json \<Rightarrow> pyerr + json" where
  "dict_get (JObj kvs) k d = Inr (case map_of kvs k of None \<Rightarrow> d | Some v \<Rightarrow> v)"
| "dict_get _ k d = Inl AttributeError"

text \<open>\<^verbatim>\<open>v[k]\<close> with a string key \<open>k\<close>.\<close>

fun getitem :: "json \<Rightarrow> string \<Rightarrow> pyerr + json" where
  "getitem (JObj kvs) k = (case map_of kvs k of None \<Rightarrow> Inl (KeyError k) | Some v \<Rightarrow> Inr v)"
| "getitem _ k = Inl TypeError"

text \<open>
  Iteration (\<^verbatim>\<open>for x in v\<close>, \<^verbatim>\<open>list(v)\<close>, \<^verbatim>\<open>xs.extend(v)\<close>): a list gives its
  elements, a dictionary its keys, a string its characters; anything else is not
  iterable.
\<close>

fun py_iter :: "json \<Rightarrow> pyerr + json list" where
  "py_iter (JList xs) = Inr xs"
| "py_iter (JObj kvs) = Inr (map (\<lambda>kv. JStr (fst kv)) kvs)"
| "py_iter (JStr s) = Inr (map (\<lambda>c. JStr [c]) s)"
| "py_iter _ = Inl TypeError"

text \<open>Sequencing of computations that may raise.\<close>

fun bindE :: "pyerr + 'a \<Rightarrow> ('a \<Rightarrow> pyerr + 'b) \<Rightarrow> pyerr + 'b" where
  "bindE (Inl e) f = Inl e"
| "bindE (Inr x) f = f x"

section \<open>Chunker\<close>

text \<open>
  \<^verbatim>\<open>for i in range(0, len(seq), size): yield seq[i : i + size]\<close>.
  \<open>chunk_from\<close> is the loop from index \<open>i\<close> on, for a positive step.
  \<^verbatim>\<open>range\<close> raises \<^verbatim>\<open>ValueError\<close> for a zero step and is empty for a negative one.
\<close>

function chunk_from :: "'a list \<Rightarrow> nat \<Rightarrow> nat \<Rightarrow> 'a list list" where
  "chunk_from seq sz i =
     (if 0 < sz \<and> i < length seq
      then take sz (drop i seq) # chunk_from seq sz (i + sz)
      else [])"
  by pat_completeness auto
termination
  by (relation "measure (\<lambda>(seq, sz, i). length seq - i)") auto

definition chunk :: "'a list \<Rightarrow> int \<Rightarrow> pyerr + 'a list list" where
  "chunk seq sz =
     (if sz = 0 then Inl ValueError
      else if sz < 0 then Inr []
      else Inr (chunk_from seq (nat sz) 0))"

section \<open>The environment: API session, clock, files and log\<close>

text \<open>
  The requests the collector sends through the client library. \<open>NextPage page\<close> is
  \<^verbatim>\<open>sp.next(page)\<close>, which follows the cursor stored in \<open>page\<close>.
\<close>

datatype request =
    CurrentUser
  | SavedTracks int
  | UserPlaylists int
  | PlaylistItems json int
  | NextPage json
  | AudioFeatures "json list"
  | RecentlyPlayed int

datatype level = INFO | WARNING | ERROR

datatype log_arg = ArgStr string | ArgInt int | ArgVal json | ArgErr pyerr

record datetime =
  year :: nat
  month :: nat
  day :: nat
  hour :: nat
  minute :: nat
  second :: nat

text \<open>
  Everything outside the program. \<open>responses\<close> is the script of answers the API gives
  to the successive requests (a value or a raised error); \<open>calls\<close> records the
  requests issued. \<open>clock\<close> gives the reading of \<^verbatim>\<open>datetime.now()\<close> at each
  successive read, counted by \<open>ticks\<close>. \<open>writes\<close> records every file written, in
  order, with its path and payload; \<open>logs\<close> every log record with its level, format
  string and arguments. \<open>cwd\<close> is the absolute path of the working directory, with
  its symbolic links resolved.

  The model describes the runs in which the snapshot file can be opened for writing.
  Where \<^verbatim>\<open>fp.open("w")\<close> raises instead (the parent directory does not exist, the
  name is not one the file system accepts), the code writes nothing and the run ends
  with that exception; the model has no such branch.
\<close>

record world =
  environ :: "string \<Rightarrow> string option"
  responses :: "(pyerr + json) list"
  calls :: "request list"
  clock :: "nat \<Rightarrow> datetime"
  ticks :: nat
  writes :: "(string \<times> json) list"
  logs :: "(level \<times> string \<times> log_arg list) list"
  cwd :: string

text \<open>
  A call either returns, raises, or gets no answer: the script of responses is used
  up, so the call never returns.
\<close>

datatype 'a outcome = Returned 'a | Raised pyerr | NoAnswer

definition sp_call :: "request \<Rightarrow> world \<Rightarrow> json outcome \<times> world" where
  "sp_call req w =
     (case responses w of
        [] \<Rightarrow> (NoAnswer, w\<lparr>calls := calls w @ [req]\<rparr>)
      | r # rs \<Rightarrow>
          ((case r of Inl e \<Rightarrow> Raised e | Inr v \<Rightarrow> Returned v),
           w\<lparr>responses := rs, calls := calls w @ [req]\<rparr>))"

definition log_msg :: "level \<Rightarrow> string \<Rightarrow> log_arg list \<Rightarrow> world \<Rightarrow> world" where
  "log_msg lvl fmt args w = w\<lparr>logs := logs w @ [(lvl, fmt, args)]\<rparr>"

definition bindW ::
  "(world \<Rightarrow> 'a outcome \<times> world) \<Rightarrow> ('a \<Rightarrow> world \<Rightarrow> 'b outcome \<times> world)
     \<Rightarrow> world \<Rightarrow> 'b outcome \<times> world" where
  "bindW m f w =
     (case m w of
        (Returned x, w') \<Rightarrow> f x w'
      | (Raised e, w') \<Rightarrow> (Raised e, w')
      | (NoAnswer, w') \<Rightarrow> (NoAnswer, w'))"

fun liftE :: "pyerr + 'a \<Rightarrow> world \<Rightarrow> 'a outcome \<times> world" where
  "liftE (Inl e) w = (Raised e, w)"
| "liftE (Inr x) w = (Returned x, w)"

subsection \<open>Configuration and constants\<close>

definition SCOPES :: string where
  "SCOPES = ''user-read-private user-read-email user-library-read user-top-read ''
     @ ''user-read-recently-played playlist-read-private playlist-read-collaborative''"

definition DATA_DIR :: string where
  "DATA_DIR = ''spotify_data''"

definition AUDIO_FEATURES_BATCH :: int where "AUDIO_FEATURES_BATCH = 100"
definition PLAYLIST_ITEMS_BATCH :: int where "PLAYLIST_ITEMS_BATCH = 100"
definition SAVED_TRACKS_BATCH :: int where "SAVED_TRACKS_BATCH = 50"
definition PLAYLISTS_BATCH :: int where "PLAYLISTS_BATCH = 50"

subsection \<open>Utility helpers\<close>

text \<open>
  \<^verbatim>\<open>datetime.now().strftime("%Y%m%d_%H%M%S")\<close>: decimal fields padded with zeros to
  their minimum width. (For years below 1000 the platform decides whether \<^verbatim>\<open>%Y\<close> is
  padded; the model pads.)
\<close>

definition digit_char :: "nat \<Rightarrow> char" where
  "digit_char n = ''0123456789'' ! (n mod 10)"

function show_nat :: "nat \<Rightarrow> string" where
  "show_nat n = (if n < 10 then [digit_char n] else show_nat (n div 10) @ [digit_char (n mod 10)])"
  by pat_completeness auto
termination
  by (relation "measure (\<lambda>n. n)") auto

definition zero_pad :: "nat \<Rightarrow> string \<Rightarrow> string" where
  "zero_pad width s = replicate (width - length s) (CHR ''0'') @ s"

definition strftime :: "datetime \<Rightarrow> string" where
  "strftime dt =
     zero_pad 4 (show_nat (year dt)) @ zero_pad 2 (show_nat (month dt))
     @ zero_pad 2 (show_nat (day dt)) @ ''_''
     @ zero_pad 2 (show_nat (hour dt)) @ zero_pad 2 (show_nat (minute dt))
     @ zero_pad 2 (show_nat (second dt))"

definition timestamp :: "world \<Rightarrow> string \<times> world" where
  "timestamp w = (strftime (clock w (ticks w)), w\<lparr>ticks := Suc (ticks w)\<rparr>)"

text \<open>
  \<^verbatim>\<open>DATA_DIR / name\<close> on a POSIX path: an absolute right operand replaces the left
  one. (The library also drops redundant separators and \<^verbatim>\<open>.\<close> components of
  \<open>name\<close>; the model keeps the string as it is, which is the same path.)
\<close>

definition path_join :: "string \<Rightarrow> string \<Rightarrow> string" where
  "path_join dir name = (if take 1 name = ''/'' then name else dir @ ''/'' @ name)"

text \<open>
  \<^verbatim>\<open>dump_json\<close>, whose docstring reads
  \<^verbatim>\<open>Write JSON to ./spotify_data/<prefix>_<ts>.json and return the path.\<close>
\<close>

definition dump_json :: "json \<Rightarrow> string \<Rightarrow> world \<Rightarrow> string \<times> world" where
  "dump_json payload prefix w =
     (let (ts, w1) = timestamp w;
          fp = path_join DATA_DIR (prefix @ ''_'' @ ts @ ''.json'');
          w2 = w1\<lparr>writes := writes w1 @ [(fp, payload)]\<rparr>;
          w3 = log_msg INFO ''Saved -> %s'' [ArgStr fp] w2
      in (fp, w3))"

section \<open>Core client\<close>

subsection \<open>Generic paginator\<close>

text \<open>\<^verbatim>\<open>page.get("items", [])\<close>, iterated by \<^verbatim>\<open>list\<close> or \<^verbatim>\<open>extend\<close>.\<close>

definition page_items :: "json \<Rightarrow> pyerr + json list" where
  "page_items page = bindE (dict_get page ''items'' (JList [])) py_iter"

text \<open>
  \<^verbatim>\<open>while page.get("next"): page = self.sp.next(page); items.extend(page.get("items", []))\<close>
  and the final \<^verbatim>\<open>return items\<close>. Every turn of the loop consumes one response.
\<close>

function follow_next :: "json \<Rightarrow> json list \<Rightarrow> world \<Rightarrow> json list outcome \<times> world" where
  "follow_next page items w =
     (case dict_get page ''next'' JNull of
        Inl e \<Rightarrow> (Raised e, w)
      | Inr nx \<Rightarrow>
          if truthy nx then
            (case sp_call (NextPage page) w of
               (Returned page', w') \<Rightarrow>
                 (case page_items page' of
                    Inl e \<Rightarrow> (Raised e, w')
                  | Inr its \<Rightarrow> follow_next page' (items @ its) w')
             | (Raised e, w') \<Rightarrow> (Raised e, w')
             | (NoAnswer, w') \<Rightarrow> (NoAnswer, w'))
          else (Returned items, w))"
  by pat_completeness auto
termination
  by (relation "measure (\<lambda>(page, items, w). length (responses w))")
     (auto simp: sp_call_def split: list.splits sum.splits)

text \<open>
  \<^verbatim>\<open>_gather_items(fn, **kwargs)\<close>; the request \<open>req\<close> stands for the call
  \<^verbatim>\<open>fn(**kwargs)\<close>.
\<close>

definition gather_items :: "request \<Rightarrow> world \<Rightarrow> json list outcome \<times> world" where
  "gather_items req =
     bindW (sp_call req) (\<lambda>page.
     bindW (liftE (page_items page)) (\<lambda>items.
     follow_next page items))"

text \<open>A page reports a further cursor: its \<^verbatim>\<open>next\<close> value is true as a condition.\<close>

definition next_truthy :: "json \<Rightarrow> bool" where
  "next_truthy page = (case dict_get page ''next'' JNull of Inl e \<Rightarrow> False | Inr nx \<Rightarrow> truthy nx)"

subsection \<open>Normalisation of raw records\<close>

fun mapE :: "('a \<Rightarrow> pyerr + 'b) \<Rightarrow> 'a list \<Rightarrow> pyerr + 'b list" where
  "mapE f [] = Inr []"
| "mapE f (x # xs) = bindE (f x) (\<lambda>y. bindE (mapE f xs) (\<lambda>ys. Inr (y # ys)))"

text \<open>\<^verbatim>\<open>[a.get(key) for a in track.get("artists", [])]\<close>\<close>

definition artists_field :: "json \<Rightarrow> string \<Rightarrow> pyerr + json" where
  "artists_field track key =
     bindE (dict_get track ''artists'' (JList [])) (\<lambda>artists.
     bindE (py_iter artists) (\<lambda>as.
     bindE (mapE (\<lambda>a. dict_get a key JNull) as) (\<lambda>vs. Inr (JList vs))))"

text \<open>\<^verbatim>\<open>(obj.get(outer) or {}).get(inner)\<close>\<close>

definition nested_get :: "json \<Rightarrow> string \<Rightarrow> string \<Rightarrow> pyerr + json" where
  "nested_get obj outer inner =
     bindE (dict_get obj outer JNull) (\<lambda>v. dict_get (py_or v (JObj [])) inner JNull)"

text \<open>The dictionary appended for one saved-track row with a non-empty track.\<close>

definition saved_track_record :: "json \<Rightarrow> json \<Rightarrow> pyerr + json" where
  "saved_track_record row track =
     bindE (dict_get row ''added_at'' JNull) (\<lambda>added_at.
     bindE (dict_get track ''id'' JNull) (\<lambda>track_id.
     bindE (dict_get track ''name'' JNull) (\<lambda>track_name.
     bindE (artists_field track ''id'') (\<lambda>artist_ids.
     bindE (artists_field track ''name'') (\<lambda>artist_names.
     bindE (nested_get track ''album'' ''id'') (\<lambda>album_id.
     bindE (nested_get track ''album'' ''name'') (\<lambda>album_name.
     bindE (dict_get track ''duration_ms'' JNull) (\<lambda>duration_ms.
     bindE (dict_get track ''popularity'' JNull) (\<lambda>popularity.
     bindE (nested_get track ''external_urls'' ''spotify'') (\<lambda>external_url.
     bindE (dict_get track ''preview_url'' JNull) (\<lambda>preview_url.
     bindE (dict_get track ''is_local'' (JBool False)) (\<lambda>is_local.
     Inr (JObj
       [(''added_at'', added_at),
        (''track_id'', track_id),
        (''track_name'', track_name),
        (''artist_ids'', artist_ids),
        (''artist_names'', artist_names),
        (''album_id'', album_id),
        (''album_name'', album_name),
        (''duration_ms'', duration_ms),
        (''popularity'', popularity),
        (''external_url'', external_url),
        (''preview_url'', preview_url),
        (''is_local'', is_local)])))))))))))))"

text \<open>
  The loop of \<^verbatim>\<open>collect_saved_tracks\<close> over the raw rows, with the accumulator
  \<open>processed\<close>: \<^verbatim>\<open>track = row.get("track") or {}\<close>, \<^verbatim>\<open>if not track: continue\<close>.
\<close>

fun saved_tracks_loop :: "json list \<Rightarrow> json list \<Rightarrow> pyerr + json list" where
  "saved_tracks_loop [] processed = Inr processed"
| "saved_tracks_loop (row # raw) processed =
     bindE (dict_get row ''track'' JNull) (\<lambda>t.
       let track = py_or t (JObj []) in
       if \<not> truthy track then saved_tracks_loop raw processed
       else bindE (saved_track_record row track) (\<lambda>r. saved_tracks_loop raw (processed @ [r])))"

text \<open>The dictionary appended for one raw playlist.\<close>

definition playlist_record :: "json \<Rightarrow> pyerr + json" where
  "playlist_record pl =
     bindE (dict_get pl ''id'' JNull) (\<lambda>playlist_id.
     bindE (dict_get pl ''name'' JNull) (\<lambda>playlist_name.
     bindE (nested_get pl ''owner'' ''id'') (\<lambda>owner_id.
     bindE (nested_get pl ''owner'' ''display_name'') (\<lambda>owner_name.
     bindE (dict_get pl ''description'' JNull) (\<lambda>description.
     bindE (dict_get pl ''public'' JNull) (\<lambda>public.
     bindE (dict_get pl ''collaborative'' JNull) (\<lambda>collaborative.
     bindE (nested_get pl ''tracks'' ''total'') (\<lambda>track_count.
     bindE (dict_get pl ''snapshot_id'' JNull) (\<lambda>snapshot_id.
     bindE (nested_get pl ''external_urls'' ''spotify'') (\<lambda>external_url.
     Inr (JObj
       [(''playlist_id'', playlist_id),
        (''playlist_name'', playlist_name),
        (''owner_id'', owner_id),
        (''owner_name'', owner_name),
        (''description'', description),
        (''public'', public),
        (''collaborative'', collaborative),
        (''track_count'', track_count),
        (''snapshot_id'', snapshot_id),
        (''external_url'', external_url)])))))))))))"

text \<open>The dictionary appended for one playlist item with a non-empty track.\<close>

definition playlist_track_record :: "json \<Rightarrow> json \<Rightarrow> json \<Rightarrow> pyerr + json" where
  "playlist_track_record pl_id it track =
     bindE (dict_get it ''added_at'' JNull) (\<lambda>added_at.
     bindE (nested_get it ''added_by'' ''id'') (\<lambda>added_by_id.
     bindE (dict_get track ''id'' JNull) (\<lambda>track_id.
     bindE (dict_get track ''name'' JNull) (\<lambda>track_name.
     bindE (artists_field track ''id'') (\<lambda>artist_ids.
     bindE (artists_field track ''name'') (\<lambda>artist_names.
     bindE (nested_get track ''album'' ''id'') (\<lambda>album_id.
     bindE (nested_get track ''album'' ''name'') (\<lambda>album_name.
     bindE (dict_get track ''duration_ms'' JNull) (\<lambda>duration_ms.
     bindE (dict_get track ''popularity'' JNull) (\<lambda>popularity.
     bindE (nested_get track ''external_urls'' ''spotify'') (\<lambda>external_url.
     bindE (dict_get track ''preview_url'' JNull) (\<lambda>preview_url.
     bindE (dict_get track ''is_local'' (JBool False)) (\<lambda>is_local.
     Inr (JObj
       [(''playlist_id'', pl_id),
        (''added_at'', added_at),
        (''added_by_id'', added_by_id),
        (''track_id'', track_id),
        (''track_name'', track_name),
        (''artist_ids'', artist_ids),
        (''artist_names'', artist_names),
        (''album_id'', album_id),
        (''album_name'', album_name),
        (''duration_ms'', duration_ms),
        (''popularity'', popularity),
        (''external_url'', external_url),
        (''preview_url'', preview_url),
        (''is_local'', is_local)]))))))))))))))"

text \<open>
  The loop of \<^verbatim>\<open>collect_first_playlist_tracks\<close> over the items:
  \<^verbatim>\<open>track = (it or {}).get("track") or {}\<close>, \<^verbatim>\<open>if not track: continue\<close>.
\<close>

fun playlist_tracks_loop :: "json \<Rightarrow> json list \<Rightarrow> json list \<Rightarrow> pyerr + json list" where
  "playlist_tracks_loop pl_id [] processed = Inr processed"
| "playlist_tracks_loop pl_id (it # items) processed =
     bindE (dict_get (py_or it (JObj [])) ''track'' JNull) (\<lambda>t.
       let track = py_or t (JObj []) in
       if \<not> truthy track then playlist_tracks_loop pl_id items processed
       else bindE (playlist_track_record pl_id it track)
              (\<lambda>r. playlist_tracks_loop pl_id items (processed @ [r])))"

text \<open>
  The dictionary appended for one recently played row, after
  \<^verbatim>\<open>track = (row or {}).get("track") or {}\<close>.
\<close>

definition recently_played_record :: "json \<Rightarrow> json \<Rightarrow> pyerr + json" where
  "recently_played_record row track =
     bindE (dict_get row ''played_at'' JNull) (\<lambda>played_at.
     bindE (dict_get track ''id'' JNull) (\<lambda>track_id.
     bindE (dict_get track ''name'' JNull) (\<lambda>track_name.
     bindE (artists_field track ''id'') (\<lambda>artist_ids.
     bindE (artists_field track ''name'') (\<lambda>artist_names.
     bindE (nested_get track ''album'' ''id'') (\<lambda>album_id.
     bindE (nested_get track ''album'' ''name'') (\<lambda>album_name.
     bindE (nested_get row ''context'' ''type'') (\<lambda>context_type.
     bindE (nested_get row ''context'' ''uri'') (\<lambda>context_uri.
     Inr (JObj
       [(''played_at'', played_at),
        (''track_id'', track_id),
        (''track_name'', track_name),
        (''artist_ids'', artist_ids),
        (''artist_names'', artist_names),
        (''album_id'', album_id),
        (''album_name'', album_name),
        (''context_type'', context_type),
        (''context_uri'', context_uri)]))))))))))"

fun recently_played_loop :: "json list \<Rightarrow> json list \<Rightarrow> pyerr + json list" where
  "recently_played_loop [] processed = Inr processed"
| "recently_played_loop (row # items) processed =
     bindE (dict_get (py_or row (JObj [])) ''track'' JNull) (\<lambda>t.
       let track = py_or t (JObj []) in
       bindE (recently_played_record row track)
         (\<lambda>r. recently_played_loop items (processed @ [r])))"

text \<open>
  \<^verbatim>\<open>path.resolve()\<close> of a path without symbolic links of its own: a relative path
  is taken from the working directory.
\<close>

definition resolve :: "string \<Rightarrow> string \<Rightarrow> string" where
  "resolve wd path =
     (if take 1 path = ''/'' then path
      else if wd = ''/'' then ''/'' @ path
      else wd @ ''/'' @ path)"

subsection \<open>Text of a value inside an f-string\<close>

text \<open>
  \<^verbatim>\<open>f"playlist_{pl_id}_tracks"\<close> formats \<open>pl_id\<close> with \<^verbatim>\<open>str\<close>: a string is
  itself, \<^verbatim>\<open>None\<close>, booleans and integers have their usual text, and a list or a
  dictionary is written with the \<^verbatim>\<open>repr\<close> of its elements. For a string inside a
  container \<^verbatim>\<open>repr\<close> chooses the quote (double quotes when the string has a single
  quote and no double quote, single quotes otherwise), escapes backslash, the chosen
  quote, newline, carriage return and tab, and writes any other control character
  (below 32, or 127) as a backslash, the letter x and two lower-case hexadecimal digits.
  Bytes above 127 stand for text outside ASCII and are kept.
\<close>

definition hex_digit :: "nat \<Rightarrow> char" where
  "hex_digit n = ''0123456789abcdef'' ! (n mod 16)"

definition show_int :: "int \<Rightarrow> string" where
  "show_int i = (if i < 0 then ''-'' @ show_nat (nat (- i)) else show_nat (nat i))"

definition escape_char :: "char \<Rightarrow> char \<Rightarrow> string" where
  "escape_char q c =
     (if c = CHR 0x5C then [CHR 0x5C, CHR 0x5C]
      else if c = q then [CHR 0x5C, q]
      else if c = CHR 0x0A then [CHR 0x5C, CHR ''n'']
      else if c = CHR 0x0D then [CHR 0x5C, CHR ''r'']
      else if c = CHR 0x09 then [CHR 0x5C, CHR ''t'']
      else if (of_char c :: nat) < 32 \<or> (of_char c :: nat) = 127
      then [CHR 0x5C, CHR ''x'', hex_digit (of_char c div 16), hex_digit (of_char c)]
      else [c])"

definition repr_str :: "string \<Rightarrow> string" where
  "repr_str s =
     (let q = (if CHR 0x27 \<in> set s \<and> CHR 0x22 \<notin> set s then CHR 0x22 else CHR 0x27)
      in [q] @ concat (map (escape_char q) s) @ [q])"

fun join_with :: "string \<Rightarrow> string list \<Rightarrow> string" where
  "join_with sep [] = []"
| "join_with sep [x] = x"
| "join_with sep (x # y # ys) = x @ sep @ join_with sep (y # ys)"

fun py_repr :: "json \<Rightarrow> string" where
  "py_repr JNull = ''None''"
| "py_repr (JBool b) = (if b then ''True'' else ''False'')"
| "py_repr (JInt i) = show_int i"
| "py_repr (JStr s) = repr_str s"
| "py_repr (JList xs) = ''['' @ join_with '', '' (map py_repr xs) @ '']''"
| "py_repr (JObj kvs) =
     ''{'' @ join_with '', '' (map (\<lambda>kv. repr_str (fst kv) @ '': '' @ py_repr (snd kv)) kvs) @ ''}''"

fun py_str :: "json \<Rightarrow> string" where
  "py_str (JStr s) = s"
| "py_str v = py_repr v"

subsection \<open>The collector's methods\<close>

definition returnW :: "'a \<Rightarrow> world \<Rightarrow> 'a outcome \<times> world" where
  "returnW x w = (Returned x, w)"

definition logW :: "level \<Rightarrow> string \<Rightarrow> log_arg list \<Rightarrow> world \<Rightarrow> unit outcome \<times> world" where
  "logW lvl fmt args w = (Returned (), log_msg lvl fmt args w)"

definition dumpW :: "json \<Rightarrow> string \<Rightarrow> world \<Rightarrow> string outcome \<times> world" where
  "dumpW payload prefix w = (case dump_json payload prefix w of (fp, w') \<Rightarrow> (Returned fp, w'))"

text \<open>
  \<^verbatim>\<open>SpotifyCollector.__init__\<close>: building the client objects sends nothing; the first
  request, \<^verbatim>\<open>current_user()\<close>, is where authentication happens.
\<close>

definition SpotifyCollector_init :: "string \<Rightarrow> world \<Rightarrow> unit outcome \<times> world" where
  "SpotifyCollector_init scopes =
     bindW (sp_call CurrentUser) (\<lambda>me.
     bindW (liftE (dict_get me ''display_name'' JNull)) (\<lambda>display_name.
     bindW (liftE (dict_get me ''id'' JNull)) (\<lambda>user_id.
     logW INFO ''Authenticated as %s (%s)'' [ArgVal display_name, ArgVal user_id])))"

definition collect_saved_tracks :: "world \<Rightarrow> json list outcome \<times> world" where
  "collect_saved_tracks =
     bindW (logW INFO ''Fetching saved tracks ...'' []) (\<lambda>_.
     bindW (gather_items (SavedTracks SAVED_TRACKS_BATCH)) (\<lambda>raw.
     bindW (liftE (saved_tracks_loop raw [])) (\<lambda>processed.
     bindW (dumpW (JList processed) ''saved_tracks'') (\<lambda>_.
     bindW (logW INFO ''Saved tracks count: %d'' [ArgInt (int (length processed))]) (\<lambda>_.
     returnW processed)))))"

definition collect_playlists :: "world \<Rightarrow> json list outcome \<times> world" where
  "collect_playlists =
     bindW (logW INFO ''Fetching user playlists ...'' []) (\<lambda>_.
     bindW (gather_items (UserPlaylists PLAYLISTS_BATCH)) (\<lambda>raw.
     bindW (liftE (mapE playlist_record raw)) (\<lambda>processed.
     bindW (dumpW (JList processed) ''user_playlists'') (\<lambda>_.
     bindW (logW INFO ''Playlists count: %d'' [ArgInt (int (length processed))]) (\<lambda>_.
     returnW processed)))))"

text \<open>The result is \<^verbatim>\<open>None\<close> on the early exit, the list of records otherwise.\<close>

definition collect_first_playlist_tracks ::
  "json list \<Rightarrow> world \<Rightarrow> json list option outcome \<times> world" where
  "collect_first_playlist_tracks playlists =
     (case playlists of
        [] \<Rightarrow>
          bindW (logW WARNING ''No playlists found; skipping playlist item extraction.'' []) (\<lambda>_.
          returnW None)
      | first # _ \<Rightarrow>
          bindW (liftE (getitem first ''playlist_id'')) (\<lambda>pl_id.
          bindW (liftE (getitem first ''playlist_name'')) (\<lambda>pl_name.
          bindW (logW INFO (''Fetching tracks for playlist: '' @ [CHR 0x27] @ ''%s'' @ [CHR 0x27] @ '' (%s)'')
                   [ArgVal pl_name, ArgVal pl_id]) (\<lambda>_.
          bindW (sp_call (PlaylistItems pl_id PLAYLIST_ITEMS_BATCH)) (\<lambda>page.
          bindW (liftE (page_items page)) (\<lambda>items0.
          bindW (follow_next page items0) (\<lambda>items.
          bindW (liftE (playlist_tracks_loop pl_id items [])) (\<lambda>processed.
          bindW (dumpW (JList processed) (''playlist_'' @ py_str pl_id @ ''_tracks'')) (\<lambda>_.
          bindW (logW INFO ''Tracks in first playlist: %d'' [ArgInt (int (length processed))]) (\<lambda>_.
          returnW (Some processed)))))))))))"

text \<open>
  The loop of \<^verbatim>\<open>collect_audio_features_for_tracks\<close> over the batches:
  \<^verbatim>\<open>feats = self.sp.audio_features(group) or []\<close>,
  \<^verbatim>\<open>all_feats.extend([f for f in feats if f])\<close>.
\<close>

fun audio_features_loop :: "json list list \<Rightarrow> json list \<Rightarrow> world \<Rightarrow> json list outcome \<times> world" where
  "audio_features_loop [] all_feats = returnW all_feats"
| "audio_features_loop (grp # groups) all_feats =
     bindW (sp_call (AudioFeatures grp)) (\<lambda>r.
     bindW (liftE (py_iter (py_or r (JList [])))) (\<lambda>feats.
     audio_features_loop groups (all_feats @ filter truthy feats)))"

definition collect_audio_features_for_tracks ::
  "json list \<Rightarrow> string \<Rightarrow> world \<Rightarrow> json list outcome \<times> world" where
  "collect_audio_features_for_tracks track_ids prefix =
     (let valid_ids = filter truthy track_ids in
      if valid_ids = [] then
        bindW (logW WARNING ''No valid track IDs for audio features.'' []) (\<lambda>_. returnW [])
      else
        bindW (logW INFO ''Fetching audio features for %d tracks ...''
                 [ArgInt (int (length valid_ids))]) (\<lambda>_.
        bindW (liftE (chunk valid_ids AUDIO_FEATURES_BATCH)) (\<lambda>groups.
        bindW (audio_features_loop groups []) (\<lambda>all_feats.
        bindW (dumpW (JList all_feats) prefix) (\<lambda>_.
        bindW (logW INFO ''Audio features rows: %d'' [ArgInt (int (length all_feats))]) (\<lambda>_.
        returnW all_feats))))))"

definition collect_recently_played :: "world \<Rightarrow> json list outcome \<times> world" where
  "collect_recently_played =
     bindW (logW INFO ''Fetching recently played tracks (last 50) ...'' []) (\<lambda>_.
     bindW (sp_call (RecentlyPlayed 50)) (\<lambda>r.
     bindW (liftE (bindE (dict_get (py_or r (JObj [])) ''items'' (JList [])) py_iter)) (\<lambda>items.
     bindW (liftE (recently_played_loop items [])) (\<lambda>processed.
     bindW (dumpW (JList processed) ''recently_played'') (\<lambda>_.
     bindW (logW INFO ''Recently played count: %d'' [ArgInt (int (length processed))]) (\<lambda>_.
     returnW processed))))))"

section \<open>Entry point\<close>

definition required_vars :: "string list" where
  "required_vars = [''SPOTIPY_CLIENT_ID'', ''SPOTIPY_CLIENT_SECRET'', ''SPOTIPY_REDIRECT_URI'']"

text \<open>\<^verbatim>\<open>os.getenv(var)\<close> as a condition: an unset variable and an empty one are both false.\<close>

definition getenv_set :: "world \<Rightarrow> string \<Rightarrow> bool" where
  "getenv_set w var = (case environ w var of None \<Rightarrow> False | Some v \<Rightarrow> v \<noteq> [])"

definition missing_message :: "string \<Rightarrow> string" where
  "missing_message var =
     ''Missing environment variable: '' @ var @ ''. '' @ ''Set it before running this script.''"

text \<open>The loop over the required variables; \<open>Some\<close> is the error raised.\<close>

fun check_env :: "string list \<Rightarrow> world \<Rightarrow> pyerr option" where
  "check_env [] w = None"
| "check_env (var # vars) w =
     (if \<not> getenv_set w var then Some (RuntimeError (missing_message var))
      else check_env vars w)"

text \<open>
  \<^verbatim>\<open>[t["track_id"] for t in saved_tracks if t.get("track_id") and not t.get("is_local")]\<close>
\<close>

fun saved_track_ids :: "json list \<Rightarrow> pyerr + json list" where
  "saved_track_ids [] = Inr []"
| "saved_track_ids (t # ts) =
     bindE (dict_get t ''track_id'' JNull) (\<lambda>tid.
     bindE (if truthy tid
            then bindE (dict_get t ''is_local'' JNull) (\<lambda>loc. Inr (\<not> truthy loc))
            else Inr False) (\<lambda>keep.
     if keep
     then bindE (getitem t ''track_id'') (\<lambda>v.
          bindE (saved_track_ids ts) (\<lambda>rest. Inr (v # rest)))
     else saved_track_ids ts))"

text \<open>
  \<^verbatim>\<open>main\<close>. Only the construction of the collector stands inside the
  \<^verbatim>\<open>try\<close>; the final log line names \<^verbatim>\<open>DATA_DIR.resolve()\<close>. Nothing in the
  program changes the working directory.
\<close>

definition main :: "world \<Rightarrow> unit outcome \<times> world" where
  "main w =
     (case check_env required_vars w of
        Some e \<Rightarrow> (Raised e, w)
      | None \<Rightarrow>
          (case SpotifyCollector_init SCOPES w of
             (Raised exc, w1) \<Rightarrow>
               (Returned (), log_msg ERROR ''Authentication failed: %s'' [ArgErr exc] w1)
           | (NoAnswer, w1) \<Rightarrow> (NoAnswer, w1)
           | (Returned client, w1) \<Rightarrow>
               bindW collect_saved_tracks (\<lambda>saved_tracks.
               bindW collect_playlists (\<lambda>playlists.
               bindW (collect_first_playlist_tracks playlists) (\<lambda>_.
               bindW (liftE (saved_track_ids saved_tracks)) (\<lambda>ids.
               bindW (collect_audio_features_for_tracks ids ''saved_tracks_audio_features'') (\<lambda>_.
               bindW collect_recently_played (\<lambda>_.
               bindW (logW INFO ''--- Extraction complete ---'' []) (\<lambda>_.
               logW INFO ''All datasets saved in: %s''
                 [ArgStr (resolve (cwd w) DATA_DIR)]))))))) w1))"

section \<open>Vocabulary of the properties\<close>

subsection \<open>Shapes of the values the API sends\<close>

text \<open>
  The normalisation never raises on rows of these shapes: a row is a dictionary; its
  track is empty or absent, or a dictionary whose artists are a list of dictionaries
  and whose album and external URLs are dictionaries, empty or absent; the playback
  context of a recently played row is a dictionary, empty or absent.
\<close>

definition is_obj :: "json \<Rightarrow> bool" where
  "is_obj v = (case v of JObj kvs \<Rightarrow> True | _ \<Rightarrow> False)"

definition obj_or_empty :: "json \<Rightarrow> bool" where
  "obj_or_empty v = (is_obj v \<or> \<not> truthy v)"

definition wf_track :: "json \<Rightarrow> bool" where
  "wf_track t =
     (is_obj t
      \<and> (case dict_get t ''artists'' (JList []) of Inr (JList as) \<Rightarrow> list_all is_obj as | _ \<Rightarrow> False)
      \<and> (case dict_get t ''album'' JNull of Inr a \<Rightarrow> obj_or_empty a | _ \<Rightarrow> False)
      \<and> (case dict_get t ''external_urls'' JNull of Inr u \<Rightarrow> obj_or_empty u | _ \<Rightarrow> False))"

definition wf_saved_row :: "json \<Rightarrow> bool" where
  "wf_saved_row row =
     (is_obj row \<and> (case dict_get row ''track'' JNull of Inr t \<Rightarrow> \<not> truthy t \<or> wf_track t | _ \<Rightarrow> False))"

definition wf_played_track :: "json \<Rightarrow> bool" where
  "wf_played_track t =
     (is_obj t
      \<and> (case dict_get t ''artists'' (JList []) of Inr (JList as) \<Rightarrow> list_all is_obj as | _ \<Rightarrow> False)
      \<and> (case dict_get t ''album'' JNull of Inr a \<Rightarrow> obj_or_empty a | _ \<Rightarrow> False))"

definition wf_played_row :: "json \<Rightarrow> bool" where
  "wf_played_row row =
     (is_obj row
      \<and> (case dict_get row ''track'' JNull of Inr t \<Rightarrow> \<not> truthy t \<or> wf_played_track t | _ \<Rightarrow> False)
      \<and> (case dict_get row ''context'' JNull of Inr c \<Rightarrow> obj_or_empty c | _ \<Rightarrow> False))"

subsection \<open>Rows and records\<close>

text \<open>
  \<open>has_track\<close>: the nested track of a row is neither empty nor absent;
  \<open>the_track\<close> is that track. \<open>saved_track_fields\<close> are the keys of a saved-track
  record, in order.
\<close>

definition has_track :: "json \<Rightarrow> bool" where
  "has_track row = (case dict_get row ''track'' JNull of Inl e \<Rightarrow> False | Inr t \<Rightarrow> truthy t)"

definition the_track :: "json \<Rightarrow> json" where
  "the_track row = (case dict_get row ''track'' JNull of Inl e \<Rightarrow> JObj [] | Inr t \<Rightarrow> t)"

definition saved_track_fields :: "string list" where
  "saved_track_fields =
     [''added_at'', ''track_id'', ''track_name'', ''artist_ids'', ''artist_names'', ''album_id'',
      ''album_name'', ''duration_ms'', ''popularity'', ''external_url'', ''preview_url'', ''is_local'']"

text \<open>
  A record is \<open>wanted\<close> for the audio features when its \<open>track_id\<close> is true as a
  condition and its \<open>is_local\<close> is not.
\<close>

definition track_id_of :: "json \<Rightarrow> json" where
  "track_id_of t = (case dict_get t ''track_id'' JNull of Inl e \<Rightarrow> JNull | Inr v \<Rightarrow> v)"

definition is_local_of :: "json \<Rightarrow> json" where
  "is_local_of t = (case dict_get t ''is_local'' JNull of Inl e \<Rightarrow> JNull | Inr v \<Rightarrow> v)"

definition wanted :: "json \<Rightarrow> bool" where
  "wanted t = (truthy (track_id_of t) \<and> \<not> truthy (is_local_of t))"

text \<open>
  The entries of the answer to one batch request, and the items of the answer to the
  recently played request, as the code iterates over them.
\<close>

definition batch_items :: "json \<Rightarrow> pyerr + json list" where
  "batch_items r = py_iter (py_or r (JList []))"

definition played_items :: "json \<Rightarrow> pyerr + json list" where
  "played_items r = bindE (dict_get (py_or r (JObj [])) ''items'' (JList [])) py_iter"

subsection \<open>Snapshot paths\<close>

text \<open>
  \<open>snapshot_path prefix w\<close> is the path \<open>dump_json\<close> computes in the world \<open>w\<close>.
  \<open>dirname\<close> is the part of a path before its last separator.
\<close>

definition snapshot_path :: "string \<Rightarrow> world \<Rightarrow> string" where
  "snapshot_path prefix w =
     path_join DATA_DIR (prefix @ ''_'' @ strftime (clock w (ticks w)) @ ''.json'')"

definition dirname :: "string \<Rightarrow> string" where
  "dirname p = rev (tl (dropWhile (\<lambda>c. c \<noteq> CHR ''/'') (rev p)))"

subsection \<open>Effects of a computation\<close>

text \<open>
  \<open>grows m\<close>: the computation only adds requests to those already sent.
\<close>

definition grows :: "(world \<Rightarrow> 'a outcome \<times> world) \<Rightarrow> bool" where
  "grows m = (\<forall>w. \<exists>more. calls (snd (m w)) = calls w @ more)"

section \<open>Example values\<close>

text \<open>
  A world with no environment variable set, no response scripted, a clock that always
  reads 2024-01-02 03:04:05 and the working directory \<^verbatim>\<open>/home/user/project\<close>; an
  environment with the three required variables.
\<close>

definition demo_world :: world where
  "demo_world =
     \<lparr>environ = (\<lambda>var. None), responses = [], calls = [],
      clock = (\<lambda>n. \<lparr>year = 2024, month = 1, day = 2, hour = 3, minute = 4, second = 5\<rparr>),
      ticks = 0, writes = [], logs = [], cwd = ''/home/user/project''\<rparr>"

definition demo_environ :: "string \<Rightarrow> string option" where
  "demo_environ =
     [''SPOTIPY_CLIENT_ID'' \<mapsto> ''id'', ''SPOTIPY_CLIENT_SECRET'' \<mapsto> ''secret'',
      ''SPOTIPY_REDIRECT_URI'' \<mapsto> ''http://localhost:8888/callback'']"

text \<open>
  Two pages, the first with a further cursor.
\<close>

definition page_a :: json where
  "page_a = JObj [(''items'', JList [JStr ''x'', JStr ''y'']), (''next'', JStr ''cursor-2'')]"


text \<open>
  The saved-tracks page of the specification's end-to-end scenario, its single row and
  the record expected for it; a row whose track is null.
\<close>

definition example_track :: json where
  "example_track = JObj
     [(''id'', JStr ''t1''),
      (''name'', JStr ''Song A''),
      (''artists'', JList [JObj [(''id'', JStr ''a1''), (''name'', JStr ''Artist A'')]]),
      (''album'', JObj [(''id'', JStr ''al1''), (''name'', JStr ''Album A'')]),
      (''duration_ms'', JInt 200000),
      (''popularity'', JInt 50),
      (''external_urls'', JObj [(''spotify'', JStr ''url1'')]),
      (''preview_url'', JNull),
      (''is_local'', JBool False)]"

definition example_row :: json where
  "example_row = JObj [(''added_at'', JStr ''2024-01-01T00:00:00Z''), (''track'', example_track)]"

definition example_page :: json where
  "example_page = JObj [(''items'', JList [example_row]), (''next'', JNull)]"

definition example_record :: json where
  "example_record = JObj
     [(''added_at'', JStr ''2024-01-01T00:00:00Z''),
      (''track_id'', JStr ''t1''),
      (''track_name'', JStr ''Song A''),
      (''artist_ids'', JList [JStr ''a1'']),
      (''artist_names'', JList [JStr ''Artist A'']),
      (''album_id'', JStr ''al1''),
      (''album_name'', JStr ''Album A''),
      (''duration_ms'', JInt 200000),
      (''popularity'', JInt 50),
      (''external_url'', JStr ''url1''),
      (''preview_url'', JNull),
      (''is_local'', JBool False)]"

definition placeholder_row :: json where
  "placeholder_row = JObj [(''added_at'', JStr ''2024-02-02T00:00:00Z''), (''track'', JNull)]"

text \<open>
  Records with a given \<open>track_id\<close> and \<open>is_local\<close>; 150 track IDs \<^verbatim>\<open>t1\<close> to
  \<^verbatim>\<open>t150\<close>; two audio-feature entries.
\<close>

definition id_record :: "string \<Rightarrow> json \<Rightarrow> json \<Rightarrow> json" where
  "id_record name tid loc = JObj [(''track_name'', JStr name), (''track_id'', tid), (''is_local'', loc)]"

definition ids_150 :: "json list" where
  "ids_150 = map (\<lambda>n. JStr (''t'' @ show_nat n)) [1..<151]"

definition feat_a :: json where
  "feat_a = JObj [(''id'', JStr ''t1''), (''tempo'', JInt 120)]"

definition feat_b :: json where
  "feat_b = JObj [(''id'', JStr ''t101''), (''tempo'', JInt 90)]"

text \<open>
  Raw playlists and the records the playlist extraction makes of them.
\<close>

definition raw_playlist :: "string \<Rightarrow> string \<Rightarrow> json" where
  "raw_playlist pid name = JObj [(''id'', JStr pid), (''name'', JStr name), (''public'', JBool True)]"

definition playlist_of :: "string \<Rightarrow> string \<Rightarrow> json" where
  "playlist_of pid name = JObj
     [(''playlist_id'', JStr pid),
      (''playlist_name'', JStr name),
      (''owner_id'', JNull),
      (''owner_name'', JNull),
      (''description'', JNull),
      (''public'', JBool True),
      (''collaborative'', JNull),
      (''track_count'', JNull),
      (''snapshot_id'', JNull),
      (''external_url'', JNull)]"

definition playlist_z :: json where
  "playlist_z = playlist_of ''p9'' ''Zebra''"

definition playlist_a :: json where
  "playlist_a = playlist_of ''p1'' ''Alpha''"

text \<open>
  A recently played row without a track, the record made of it, and a response with
  that single item.
\<close>

definition trackless_row :: json where
  "trackless_row = JObj [(''played_at'', JStr ''2024-03-03T10:00:00Z''), (''track'', JNull)]"

definition trackless_record :: json where
  "trackless_record = JObj
     [(''played_at'', JStr ''2024-03-03T10:00:00Z''),
      (''track_id'', JNull),
      (''track_name'', JNull),
      (''artist_ids'', JList []),
      (''artist_names'', JList []),
      (''album_id'', JNull),
      (''album_name'', JNull),
      (''context_type'', JNull),
      (''context_uri'', JNull)]"

definition played_payload :: json where
  "played_payload = JObj [(''items'', JList [trackless_row])]"

section \<open>Lemmas about the chunker\<close>

declare chunk_from.simps [simp del]

lemma concat_chunk_from: "0 < sz \<Longrightarrow> concat (chunk_from seq sz i) = drop i seq"
proof (induction seq sz i rule: chunk_from.induct)
  case (1 seq sz i)
  show ?case
  proof (cases "i < length seq")
    case True
    have "take sz (drop i seq) @ drop (i + sz) seq = drop i seq"
      by (metis add.commute append_take_drop_id drop_drop)
    with 1 True show ?thesis
      by (subst chunk_from.simps) simp
  next
    case False
    then show ?thesis
      by (subst chunk_from.simps) simp
  qed
qed

lemma chunk_from_bounded: "c \<in> set (chunk_from seq sz i) \<Longrightarrow> length c \<le> sz \<and> c \<noteq> []"
proof (induction seq sz i rule: chunk_from.induct)
  case (1 seq sz i)
  from "1.prems" have ok: "0 < sz" "i < length seq"
    by (subst (asm) chunk_from.simps, simp split: if_splits)+
  from "1.prems" ok have "c = take sz (drop i seq) \<or> c \<in> set (chunk_from seq sz (i + sz))"
    by (subst (asm) chunk_from.simps) simp
  then show ?case
  proof
    assume "c = take sz (drop i seq)"
    with ok show ?thesis by simp
  next
    assume "c \<in> set (chunk_from seq sz (i + sz))"
    with "1.IH" ok show ?thesis by simp
  qed
qed

lemma div_plus_self: "0 < sz \<Longrightarrow> (a + sz) div sz = Suc (a div (sz::nat))"
  by (metis div_add_self2 Suc_eq_plus1 less_numeral_extra(3))

lemma ceil_step:
  fixes n i sz :: nat
  assumes "0 < sz" "i < n"
  shows "(n - i + sz - 1) div sz = Suc ((n - (i + sz) + sz - 1) div sz)"
proof (cases "sz \<le> n - i")
  case True
  define a where "a = n - (i + sz) + sz - 1"
  have "n - i + sz - 1 = a + sz"
    using assms True by (simp add: a_def)
  then show ?thesis
    using div_plus_self [OF assms(1), of a] by (simp only: a_def)
next
  case False
  define b where "b = n - i - 1"
  have b: "n - i + sz - 1 = b + sz" "b < sz"
    using assms False by (simp_all add: b_def)
  have "(b + sz) div sz = Suc 0"
    using div_plus_self [OF assms(1), of b] b(2) by simp
  then have l: "(n - i + sz - 1) div sz = Suc 0"
    by (simp only: b(1))
  have "n - (i + sz) + sz - 1 < sz"
    using False assms by simp
  then have "(n - (i + sz) + sz - 1) div sz = 0"
    by (rule div_less)
  with l show ?thesis by (simp only:)
qed

lemma length_chunk_from:
  "0 < sz \<Longrightarrow> length (chunk_from seq sz i) = (length seq - i + sz - 1) div sz"
proof (induction seq sz i rule: chunk_from.induct)
  case (1 seq sz i)
  show ?case
  proof (cases "i < length seq")
    case True
    have "length (chunk_from seq sz i) = Suc (length (chunk_from seq sz (i + sz)))"
      using True \<open>0 < sz\<close> by (subst chunk_from.simps) simp
    also have "length (chunk_from seq sz (i + sz)) = (length seq - (i + sz) + sz - 1) div sz"
      using 1 True by simp
    finally show ?thesis
      using ceil_step [OF \<open>0 < sz\<close> True] by (simp only:)
  next
    case False
    then have "length seq - i + sz - 1 < sz"
      using \<open>0 < sz\<close> by simp
    then have "(length seq - i + sz - 1) div sz = 0"
      by (rule div_less)
    moreover have "chunk_from seq sz i = []"
      using False by (subst chunk_from.simps) simp
    ultimately show ?thesis by simp
  qed
qed

section \<open>Properties of the chunker\<close>

text \<open>
  C1. For every list \<open>seq\<close> and every batch size of at least 1, the chunker returns
  (it does not raise) sub-lists whose concatenation in order is \<open>seq\<close>, each of
  length at most the size, and their number is the ceiling of \<open>length seq / size\<close>,
  written \<open>(length seq + size - 1) div size\<close>; that is 0 for the empty list.
\<close>

theorem chunk_partition:
  "1 \<le> sz \<Longrightarrow>
     (\<exists>cs. chunk seq sz = Inr cs
        \<and> concat cs = seq
        \<and> list_all (\<lambda>c. int (length c) \<le> sz) cs
        \<and> int (length cs) = (int (length seq) + sz - 1) div sz
        \<and> (seq = [] \<longrightarrow> length cs = 0))"
proof -
  assume sz: "1 \<le> sz"
  define k where "k = nat sz"
  have k: "0 < k" "sz = int k"
    using sz by (simp_all add: k_def)
  let ?cs = "chunk_from seq k 0"
  have c: "chunk seq sz = Inr ?cs"
    using sz by (simp add: chunk_def k_def)
  have cat: "concat ?cs = seq"
    using concat_chunk_from [OF k(1), of seq 0] by simp
  have bnd: "list_all (\<lambda>c. int (length c) \<le> sz) ?cs"
    using chunk_from_bounded [of _ seq k 0] k(2) by (auto simp: list_all_iff)
  have len: "length ?cs = (length seq + k - 1) div k"
    using length_chunk_from [OF k(1), of seq 0] by simp
  have "int ((length seq + k - 1) div k) = (int (length seq) + int k - 1) div int k"
  proof -
    have "int (length seq + k - 1) = int (length seq) + int k - 1"
      using k(1) by simp
    then show ?thesis
      by (simp only: zdiv_int)
  qed
  with len have cnt: "int (length ?cs) = (int (length seq) + sz - 1) div sz"
    by (simp only: k(2))
  have emp: "seq = [] \<longrightarrow> length ?cs = 0"
    using len k(1) by auto
  from c cat bnd cnt emp show ?thesis by blast
qed

theorem chunk_partition_witness:
  "(1::int) \<le> 2 \<and>
   chunk [''a'', ''b'', ''c'', ''d'', ''e''] 2 = Inr [[''a'', ''b''], [''c'', ''d''], [''e'']]"
proof -
  have h: "(1::int) \<le> 2" by simp
  have e: "chunk [''a'', ''b'', ''c'', ''d'', ''e''] 2 = Inr [[''a'', ''b''], [''c'', ''d''], [''e'']]"
    by (simp add: chunk_def chunk_from.simps)
  from chunk_partition [OF h, of "[''a'', ''b'', ''c'', ''d'', ''e'']"] h e show ?thesis
    by simp
qed

section \<open>The paginator\<close>

lemma page_items_dict: "page_items page = Inr its \<Longrightarrow> \<exists>kvs. page = JObj kvs"
  by (cases page) (simp_all add: page_items_def)

lemma sp_call_Inr:
  "responses w = Inr v # rs \<Longrightarrow>
     sp_call req w = (Returned v, w\<lparr>responses := rs, calls := calls w @ [req]\<rparr>)"
  by (simp add: sp_call_def)

lemma mapE_Cons_Inr:
  "mapE f (x # xs) = Inr ys \<longleftrightarrow> (\<exists>y ys'. f x = Inr y \<and> mapE f xs = Inr ys' \<and> ys = y # ys')"
  by (cases "f x"; cases "mapE f xs") auto

lemma follow_next_run:
  "page_items page = Inr its0 \<Longrightarrow> mapE page_items ps = Inr iss \<Longrightarrow>
   list_all next_truthy (butlast (page # ps)) \<Longrightarrow> \<not> next_truthy (last (page # ps)) \<Longrightarrow>
   responses w = map Inr ps @ rest \<Longrightarrow>
   follow_next page items w =
     (Returned (items @ concat iss),
      w\<lparr>responses := rest, calls := calls w @ map NextPage (butlast (page # ps))\<rparr>)"
proof (induction ps arbitrary: page its0 items w iss)
  case Nil
  from Nil.prems(1) obtain kvs where page: "page = JObj kvs"
    using page_items_dict by blast
  from Nil.prems(4) page have "\<not> truthy (case map_of kvs ''next'' of None \<Rightarrow> JNull | Some v \<Rightarrow> v)"
    by (simp add: next_truthy_def)
  with page Nil.prems(2,5) show ?case
    by (subst follow_next.simps) simp
next
  case (Cons p ps)
  from Cons.prems(1) obtain kvs where page: "page = JObj kvs"
    using page_items_dict by blast
  from Cons.prems(2) obtain i iss' where i: "page_items p = Inr i" "mapE page_items ps = Inr iss'" "iss = i # iss'"
    using mapE_Cons_Inr [of page_items p ps iss] by blast
  from Cons.prems(3) have nt: "next_truthy page" "list_all next_truthy (butlast (p # ps))"
    by simp_all
  from Cons.prems(4) have last: "\<not> next_truthy (last (p # ps))"
    by simp
  let ?w' = "w\<lparr>responses := map Inr ps @ rest, calls := calls w @ [NextPage page]\<rparr>"
  have call: "sp_call (NextPage page) w = (Returned p, ?w')"
    using Cons.prems(5) by (simp add: sp_call_Inr)
  have "follow_next p (items @ i) ?w' =
     (Returned ((items @ i) @ concat iss'),
      ?w'\<lparr>responses := rest, calls := calls ?w' @ map NextPage (butlast (p # ps))\<rparr>)"
    by (rule Cons.IH [OF i(1) i(2) nt(2) last]) simp
  moreover have "truthy (case map_of kvs ''next'' of None \<Rightarrow> JNull | Some v \<Rightarrow> v)"
    using nt(1) page by (simp add: next_truthy_def)
  ultimately show ?case
    using page call i by (subst follow_next.simps) simp
qed


lemma sp_call_ReturnedD:
  "sp_call req w = (Returned v, w1) \<Longrightarrow>
     \<exists>rs. responses w = Inr v # rs \<and> w1 = w\<lparr>responses := rs, calls := calls w @ [req]\<rparr>"
  by (auto simp: sp_call_def split: list.splits sum.splits)





section \<open>Saved tracks\<close>

lemma bindE_Inr_iff: "bindE m f = Inr y \<longleftrightarrow> (\<exists>x. m = Inr x \<and> f x = Inr y)"
  by (cases m) auto

lemma saved_tracks_loop_acc:
  "saved_tracks_loop raw acc = Inr processed \<Longrightarrow>
     \<exists>new. mapE (\<lambda>row. saved_track_record row (the_track row)) (filter has_track raw) = Inr new
        \<and> processed = acc @ new"
proof (induction raw arbitrary: acc)
  case Nil
  then show ?case by simp
next
  case (Cons row raw)
  from Cons.prems obtain t where t: "dict_get row ''track'' JNull = Inr t"
    by (cases "dict_get row ''track'' JNull") auto
  show ?case
  proof (cases "truthy t")
    case False
    with Cons.prems t have "saved_tracks_loop raw acc = Inr processed"
      by (simp add: py_or_def)
    moreover have "\<not> has_track row"
      using False t by (simp add: has_track_def)
    ultimately show ?thesis
      using Cons.IH [of acc] by simp
  next
    case True
    with Cons.prems t obtain r where r: "saved_track_record row t = Inr r"
        "saved_tracks_loop raw (acc @ [r]) = Inr processed"
      by (cases "saved_track_record row t") (auto simp: py_or_def)
    from Cons.IH [OF r(2)] obtain new where
      new: "mapE (\<lambda>row. saved_track_record row (the_track row)) (filter has_track raw) = Inr new"
        "processed = (acc @ [r]) @ new"
      by blast
    moreover have "has_track row" "the_track row = t"
      using True t by (simp_all add: has_track_def the_track_def)
    ultimately show ?thesis
      using r(1) by simp
  qed
qed

lemma mapE_length: "mapE f xs = Inr ys \<Longrightarrow> length ys = length xs"
proof (induction xs arbitrary: ys)
  case Nil
  then show ?case by simp
next
  case (Cons x xs)
  then show ?case
    by (auto simp: bindE_Inr_iff)
qed

lemma dict_get_obj: "is_obj v \<Longrightarrow> \<exists>x. dict_get v k d = Inr x"
  by (cases v) (simp_all add: is_obj_def)

lemma nested_get_total:
  "is_obj t \<Longrightarrow> dict_get t outer JNull = Inr a \<Longrightarrow> obj_or_empty a \<Longrightarrow> \<exists>x. nested_get t outer inner = Inr x"
  by (cases a) (auto simp: nested_get_def obj_or_empty_def is_obj_def py_or_def)

lemma mapE_get_total: "list_all is_obj as \<Longrightarrow> \<exists>vs. mapE (\<lambda>a. dict_get a key JNull) as = Inr vs"
proof (induction as)
  case Nil
  then show ?case by simp
next
  case (Cons a as)
  then obtain x vs where "dict_get a key JNull = Inr x" "mapE (\<lambda>a. dict_get a key JNull) as = Inr vs"
    using dict_get_obj [of a key JNull] by auto
  then show ?case by simp
qed

lemma artists_field_total: "wf_track t \<Longrightarrow> \<exists>x. artists_field t key = Inr x"
proof -
  assume wf: "wf_track t"
  then obtain as where as: "dict_get t ''artists'' (JList []) = Inr (JList as)" "list_all is_obj as"
    by (auto simp: wf_track_def split: sum.splits json.splits)
  from mapE_get_total [OF as(2), of key] obtain vs where "mapE (\<lambda>a. dict_get a key JNull) as = Inr vs"
    by blast
  with as(1) show ?thesis
    by (simp add: artists_field_def)
qed

lemma saved_track_record_total:
  assumes "is_obj row" "wf_track t"
  shows "\<exists>r. saved_track_record row t = Inr r"
proof -
  from assms(2) have t: "is_obj t"
    by (simp add: wf_track_def)
  from assms(2) obtain a u where au: "dict_get t ''album'' JNull = Inr a" "obj_or_empty a"
      "dict_get t ''external_urls'' JNull = Inr u" "obj_or_empty u"
    by (auto simp: wf_track_def split: sum.splits)
  obtain v1 where v1: "dict_get row ''added_at'' JNull = Inr v1"
    using dict_get_obj [OF assms(1)] by blast
  obtain v2 where v2: "dict_get t ''id'' JNull = Inr v2"
    using dict_get_obj [OF t] by blast
  obtain v3 where v3: "dict_get t ''name'' JNull = Inr v3"
    using dict_get_obj [OF t] by blast
  obtain v4 where v4: "artists_field t ''id'' = Inr v4"
    using artists_field_total [OF assms(2)] by blast
  obtain v5 where v5: "artists_field t ''name'' = Inr v5"
    using artists_field_total [OF assms(2)] by blast
  obtain v6 where v6: "nested_get t ''album'' ''id'' = Inr v6"
    using nested_get_total [OF t au(1,2)] by blast
  obtain v7 where v7: "nested_get t ''album'' ''name'' = Inr v7"
    using nested_get_total [OF t au(1,2)] by blast
  obtain v8 where v8: "dict_get t ''duration_ms'' JNull = Inr v8"
    using dict_get_obj [OF t] by blast
  obtain v9 where v9: "dict_get t ''popularity'' JNull = Inr v9"
    using dict_get_obj [OF t] by blast
  obtain v10 where v10: "nested_get t ''external_urls'' ''spotify'' = Inr v10"
    using nested_get_total [OF t au(3,4)] by blast
  obtain v11 where v11: "dict_get t ''preview_url'' JNull = Inr v11"
    using dict_get_obj [OF t] by blast
  obtain v12 where v12: "dict_get t ''is_local'' (JBool False) = Inr v12"
    using dict_get_obj [OF t] by blast
  show ?thesis
    unfolding saved_track_record_def
    by (simp only: v1 v2 v3 v4 v5 v6 v7 v8 v9 v10 v11 v12 bindE.simps) blast
qed

lemma saved_tracks_loop_total:
  "list_all wf_saved_row raw \<Longrightarrow> \<exists>processed. saved_tracks_loop raw acc = Inr processed"
proof (induction raw arbitrary: acc)
  case Nil
  then show ?case by simp
next
  case (Cons row raw)
  from Cons.prems have wfr: "wf_saved_row row" and rest: "list_all wf_saved_row raw"
    by simp_all
  from wfr have row: "is_obj row"
    by (simp add: wf_saved_row_def)
  from wfr obtain t where t: "dict_get row ''track'' JNull = Inr t" "\<not> truthy t \<or> wf_track t"
    by (auto simp: wf_saved_row_def split: sum.splits)
  show ?case
  proof (cases "truthy t")
    case False
    then show ?thesis
      using t(1) Cons.IH [OF rest, of acc] by (simp add: py_or_def)
  next
    case True
    with t(2) have "wf_track t" by simp
    from saved_track_record_total [OF row this] obtain r where "saved_track_record row t = Inr r"
      by blast
    then show ?thesis
      using True t(1) Cons.IH [OF rest, of "acc @ [r]"] by (simp add: py_or_def)
  qed
qed

lemma saved_track_record_shape:
  assumes "saved_track_record row track = Inr r"
  shows "(\<exists>vs. r = JObj (zip saved_track_fields vs) \<and> length vs = 12)
    \<and> getitem r ''added_at'' = dict_get row ''added_at'' JNull
    \<and> getitem r ''track_id'' = dict_get track ''id'' JNull
    \<and> getitem r ''track_name'' = dict_get track ''name'' JNull
    \<and> getitem r ''artist_ids'' = artists_field track ''id''
    \<and> getitem r ''artist_names'' = artists_field track ''name''
    \<and> getitem r ''album_id'' = nested_get track ''album'' ''id''
    \<and> getitem r ''album_name'' = nested_get track ''album'' ''name''
    \<and> getitem r ''duration_ms'' = dict_get track ''duration_ms'' JNull
    \<and> getitem r ''popularity'' = dict_get track ''popularity'' JNull
    \<and> getitem r ''external_url'' = nested_get track ''external_urls'' ''spotify''
    \<and> getitem r ''preview_url'' = dict_get track ''preview_url'' JNull
    \<and> getitem r ''is_local'' = dict_get track ''is_local'' (JBool False)"
proof -
  from assms obtain v1 v2 v3 v4 v5 v6 v7 v8 v9 v10 v11 v12 where
    v: "dict_get row ''added_at'' JNull = Inr v1"
       "dict_get track ''id'' JNull = Inr v2"
       "dict_get track ''name'' JNull = Inr v3"
       "artists_field track ''id'' = Inr v4"
       "artists_field track ''name'' = Inr v5"
       "nested_get track ''album'' ''id'' = Inr v6"
       "nested_get track ''album'' ''name'' = Inr v7"
       "dict_get track ''duration_ms'' JNull = Inr v8"
       "dict_get track ''popularity'' JNull = Inr v9"
       "nested_get track ''external_urls'' ''spotify'' = Inr v10"
       "dict_get track ''preview_url'' JNull = Inr v11"
       "dict_get track ''is_local'' (JBool False) = Inr v12"
    and r: "r = JObj (zip saved_track_fields [v1, v2, v3, v4, v5, v6, v7, v8, v9, v10, v11, v12])"
    unfolding saved_track_record_def bindE_Inr_iff saved_track_fields_def
    by auto
  have "\<exists>vs. r = JObj (zip saved_track_fields vs) \<and> length vs = 12"
    using r by (intro exI [of _ "[v1, v2, v3, v4, v5, v6, v7, v8, v9, v10, v11, v12]"]) simp
  then show ?thesis
    by (simp add: v) (simp add: r saved_track_fields_def)
qed

lemma example_row_record: "saved_track_record example_row example_track = Inr example_record"
  by (simp add: saved_track_record_def example_row_def example_track_def example_record_def
      artists_field_def nested_get_def py_or_def)

lemma example_loop: "saved_tracks_loop [example_row] [] = Inr [example_record]"
proof -
  have "dict_get example_row ''track'' JNull = Inr example_track"
    by (simp add: example_row_def)
  moreover have "truthy example_track"
    by (simp add: example_track_def)
  ultimately show ?thesis
    by (simp add: py_or_def example_row_record)
qed

lemma example_page_items: "page_items example_page = Inr [example_row]"
  by (simp add: page_items_def example_page_def)

lemma example_page_last: "dict_get example_page ''next'' JNull = Inr JNull"
  by (simp add: example_page_def)

lemma bindW_Returned: "m w = (Returned x, w') \<Longrightarrow> bindW m f w = f x w'"
  by (simp add: bindW_def)

lemma bindW_Raised: "m w = (Raised e, w') \<Longrightarrow> bindW m f w = (Raised e, w')"
  by (simp add: bindW_def)

lemma bindW_NoAnswer: "m w = (NoAnswer, w') \<Longrightarrow> bindW m f w = (NoAnswer, w')"
  by (simp add: bindW_def)

lemma bindW_logW: "bindW (logW lvl fmt args) f w = f () (log_msg lvl fmt args w)"
  by (simp add: bindW_def logW_def)

lemma bindW_liftE_Inr: "bindW (liftE (Inr x)) f w = f x w"
  by (simp add: bindW_def)

lemma bindW_liftE_Inl: "bindW (liftE (Inl e)) f w = (Raised e, w)"
  by (simp add: bindW_def)

lemma bindW_dumpW:
  "bindW (dumpW payload prefix) f w =
     f (fst (dump_json payload prefix w)) (snd (dump_json payload prefix w))"
  by (simp add: bindW_def dumpW_def split_def)

lemma gather_items_single:
  assumes "responses w = Inr page # rest" "page_items page = Inr items" "\<not> next_truthy page"
  shows "gather_items req w = (Returned items, w\<lparr>responses := rest, calls := calls w @ [req]\<rparr>)"
proof -
  let ?w1 = "w\<lparr>responses := rest, calls := calls w @ [req]\<rparr>"
  have c: "sp_call req w = (Returned page, ?w1)"
    using assms(1) by (rule sp_call_Inr)
  have "follow_next page items ?w1 =
      (Returned (items @ concat []),
       ?w1\<lparr>responses := rest, calls := calls ?w1 @ map NextPage (butlast (page # []))\<rparr>)"
    using assms(2,3) by (intro follow_next_run [of page items "[]"]) simp_all
  then have "follow_next page items ?w1 = (Returned items, ?w1)"
    by simp
  then show ?thesis
    unfolding gather_items_def
    by (simp add: bindW_Returned [where m = "sp_call req", OF c] assms(2) bindW_liftE_Inr)
qed

lemma collect_saved_tracks_run:
  assumes "gather_items (SavedTracks SAVED_TRACKS_BATCH) (log_msg INFO ''Fetching saved tracks ...'' [] w)
             = (Returned raw, w1)"
    and "saved_tracks_loop raw [] = Inr processed"
  shows "collect_saved_tracks w =
     (Returned processed,
      log_msg INFO ''Saved tracks count: %d'' [ArgInt (int (length processed))]
        (snd (dump_json (JList processed) ''saved_tracks'' w1)))"
  unfolding collect_saved_tracks_def
  by (simp add: bindW_logW
      bindW_Returned [where m = "gather_items (SavedTracks SAVED_TRACKS_BATCH)", OF assms(1)]
      assms(2) bindW_liftE_Inr bindW_dumpW returnW_def)

lemma collect_saved_tracks_example:
  "fst (collect_saved_tracks (w\<lparr>responses := [Inr example_page]\<rparr>)) = Returned [example_record]"
proof -
  let ?w = "w\<lparr>responses := [Inr example_page]\<rparr>"
  have "\<not> next_truthy example_page"
    by (simp add: next_truthy_def example_page_last)
  then have "gather_items (SavedTracks SAVED_TRACKS_BATCH) (log_msg INFO ''Fetching saved tracks ...'' [] ?w)
      = (Returned [example_row],
         (log_msg INFO ''Fetching saved tracks ...'' [] ?w)\<lparr>responses := [],
            calls := calls (log_msg INFO ''Fetching saved tracks ...'' [] ?w) @ [SavedTracks SAVED_TRACKS_BATCH]\<rparr>)"
    using example_page_items by (intro gather_items_single) (simp_all add: log_msg_def)
  from collect_saved_tracks_run [OF this example_loop] show ?thesis
    by simp
qed

text \<open>
  C4. Normalisation of the raw saved-track rows (the loop of \<^verbatim>\<open>collect_saved_tracks\<close>).
  Whenever it returns, its records are exactly those of the rows whose track is not
  empty or absent (\<open>has_track\<close>), in order, so the number of records is the number of
  such rows and never more than the number of rows. It does return on every list of
  well-formed rows. Every record has the twelve fields of a saved-track record, each
  taken from the row or its track as the code says, and \<open>is_local\<close> is \<open>False\<close> when
  the track has no such key. The example page of the specification yields the
  one-element list with its fields as given and \<open>is_local\<close> false.
\<close>

theorem saved_tracks_normalisation:
  "(\<forall>processed. saved_tracks_loop raw [] = Inr processed \<longrightarrow>
      mapE (\<lambda>row. saved_track_record row (the_track row)) (filter has_track raw) = Inr processed
      \<and> length processed = length (filter has_track raw)
      \<and> length processed \<le> length raw)
   \<and> (list_all wf_saved_row raw \<longrightarrow> (\<exists>processed. saved_tracks_loop raw [] = Inr processed))
   \<and> (\<forall>row track r. saved_track_record row track = Inr r \<longrightarrow>
        (\<exists>vs. r = JObj (zip saved_track_fields vs) \<and> length vs = 12)
        \<and> getitem r ''added_at'' = dict_get row ''added_at'' JNull
        \<and> getitem r ''track_id'' = dict_get track ''id'' JNull
        \<and> getitem r ''track_name'' = dict_get track ''name'' JNull
        \<and> getitem r ''artist_ids'' = artists_field track ''id''
        \<and> getitem r ''artist_names'' = artists_field track ''name''
        \<and> getitem r ''album_id'' = nested_get track ''album'' ''id''
        \<and> getitem r ''album_name'' = nested_get track ''album'' ''name''
        \<and> getitem r ''duration_ms'' = dict_get track ''duration_ms'' JNull
        \<and> getitem r ''popularity'' = dict_get track ''popularity'' JNull
        \<and> getitem r ''external_url'' = nested_get track ''external_urls'' ''spotify''
        \<and> getitem r ''preview_url'' = dict_get track ''preview_url'' JNull
        \<and> getitem r ''is_local'' = dict_get track ''is_local'' (JBool False)
        \<and> (\<forall>tkvs. track = JObj tkvs \<and> map_of tkvs ''is_local'' = None
              \<longrightarrow> getitem r ''is_local'' = Inr (JBool False)))
   \<and> fst (collect_saved_tracks (w\<lparr>responses := [Inr example_page]\<rparr>)) = Returned [example_record]"
proof (intro conjI allI impI)
  fix processed
  assume l: "saved_tracks_loop raw [] = Inr processed"
  from saved_tracks_loop_acc [OF l]
  show m: "mapE (\<lambda>row. saved_track_record row (the_track row)) (filter has_track raw) = Inr processed"
    by simp
  from mapE_length [OF m] show n: "length processed = length (filter has_track raw)" .
  show "length processed \<le> length raw"
    by (simp only: n length_filter_le)
next
  assume "list_all wf_saved_row raw"
  then show "\<exists>processed. saved_tracks_loop raw [] = Inr processed"
    by (rule saved_tracks_loop_total)
next
  fix row track r tkvs
  assume r: "saved_track_record row track = Inr r"
  note sh = saved_track_record_shape [OF r]
  from sh show "\<exists>vs. r = JObj (zip saved_track_fields vs) \<and> length vs = 12" by (elim conjE)
  from sh show "getitem r ''added_at'' = dict_get row ''added_at'' JNull" by (elim conjE)
  from sh show "getitem r ''track_id'' = dict_get track ''id'' JNull" by (elim conjE)
  from sh show "getitem r ''track_name'' = dict_get track ''name'' JNull" by (elim conjE)
  from sh show "getitem r ''artist_ids'' = artists_field track ''id''" by (elim conjE)
  from sh show "getitem r ''artist_names'' = artists_field track ''name''" by (elim conjE)
  from sh show "getitem r ''album_id'' = nested_get track ''album'' ''id''" by (elim conjE)
  from sh show "getitem r ''album_name'' = nested_get track ''album'' ''name''" by (elim conjE)
  from sh show "getitem r ''duration_ms'' = dict_get track ''duration_ms'' JNull" by (elim conjE)
  from sh show "getitem r ''popularity'' = dict_get track ''popularity'' JNull" by (elim conjE)
  from sh show "getitem r ''external_url'' = nested_get track ''external_urls'' ''spotify''" by (elim conjE)
  from sh show "getitem r ''preview_url'' = dict_get track ''preview_url'' JNull" by (elim conjE)
  from sh show il: "getitem r ''is_local'' = dict_get track ''is_local'' (JBool False)" by (elim conjE)
  assume "track = JObj tkvs \<and> map_of tkvs ''is_local'' = None"
  with il show "getitem r ''is_local'' = Inr (JBool False)"
    by simp
next
  show "fst (collect_saved_tracks (w\<lparr>responses := [Inr example_page]\<rparr>)) = Returned [example_record]"
    by (rule collect_saved_tracks_example)
qed

theorem saved_tracks_normalisation_witness:
  "saved_tracks_loop [placeholder_row, example_row, placeholder_row] [] = Inr [example_record]
   \<and> filter has_track [placeholder_row, example_row, placeholder_row] = [example_row]
   \<and> list_all wf_saved_row [placeholder_row, example_row, placeholder_row]
   \<and> getitem example_record ''is_local'' = Inr (JBool False)"
proof -
  have d: "dict_get placeholder_row ''track'' JNull = Inr JNull"
      "dict_get example_row ''track'' JNull = Inr example_track"
    by (simp_all add: placeholder_row_def example_row_def)
  have t: "truthy example_track"
    by (simp add: example_track_def)
  have l: "saved_tracks_loop [placeholder_row, example_row, placeholder_row] [] = Inr [example_record]"
    by (simp add: d t py_or_def example_row_record)
  have h: "filter has_track [placeholder_row, example_row, placeholder_row] = [example_row]"
    by (simp add: has_track_def d t)
  have wt: "wf_track example_track"
    by (simp add: wf_track_def example_track_def is_obj_def obj_or_empty_def)
  have o: "is_obj placeholder_row" "is_obj example_row"
    by (simp_all add: is_obj_def placeholder_row_def example_row_def)
  have wf: "list_all wf_saved_row [placeholder_row, example_row, placeholder_row]"
    by (simp add: wf_saved_row_def d wt o)
  have il: "getitem example_record ''is_local'' = Inr (JBool False)"
    by (simp add: example_record_def)
  from saved_tracks_normalisation [of "[placeholder_row, example_row, placeholder_row]" demo_world]
    l h wf il
  show ?thesis by simp
qed

section \<open>Track IDs for the audio features\<close>

lemma saved_track_ids_objects:
  "list_all is_obj recs \<Longrightarrow> saved_track_ids recs = Inr (map track_id_of (filter wanted recs))"
proof (induction recs)
  case Nil
  then show ?case by simp
next
  case (Cons t recs)
  then obtain kvs where t: "t = JObj kvs"
    by (cases t) (simp_all add: is_obj_def)
  from Cons have ih: "saved_track_ids recs = Inr (map track_id_of (filter wanted recs))"
    by simp
  show ?case
  proof (cases "map_of kvs ''track_id''")
    case None
    then have "\<not> wanted t"
      by (simp add: wanted_def track_id_of_def t)
    with None ih show ?thesis
      by (simp add: t)
  next
    case (Some v)
    then have v: "track_id_of t = v"
      by (simp add: track_id_of_def t)
    have l: "is_local_of t = (case map_of kvs ''is_local'' of None \<Rightarrow> JNull | Some x \<Rightarrow> x)"
      by (simp add: is_local_of_def t)
    show ?thesis
    proof (cases "wanted t")
      case True
      then have "truthy v" "\<not> truthy (case map_of kvs ''is_local'' of None \<Rightarrow> JNull | Some x \<Rightarrow> x)"
        using v l by (simp_all add: wanted_def)
      moreover have "filter wanted (t # recs) = t # filter wanted recs"
        using True by simp
      ultimately show ?thesis
        using Some ih v by (simp add: t del: filter.simps)
    next
      case False
      then have k: "\<not> truthy v \<or> truthy (case map_of kvs ''is_local'' of None \<Rightarrow> JNull | Some x \<Rightarrow> x)"
        using v l by (simp add: wanted_def)
      have "filter wanted (t # recs) = filter wanted recs"
        using False by simp
      then show ?thesis
        using Some ih k by (auto simp add: t simp del: filter.simps)
    qed
  qed
qed

lemma mapE_all:
  "mapE f xs = Inr ys \<Longrightarrow> (\<And>x y. f x = Inr y \<Longrightarrow> P y) \<Longrightarrow> list_all P ys"
proof (induction xs arbitrary: ys)
  case Nil
  then show ?case by simp
next
  case (Cons x xs)
  from Cons.prems(1) obtain y ys' where y: "f x = Inr y" "mapE f xs = Inr ys'" "ys = y # ys'"
    using mapE_Cons_Inr [of f x xs ys] by blast
  from Cons.IH [OF y(2) Cons.prems(2)] Cons.prems(2) [OF y(1)] y(3) show ?case
    by simp
qed

lemma saved_track_record_obj: "saved_track_record row track = Inr r \<Longrightarrow> is_obj r"
  using saved_track_record_shape [of row track r] by (auto simp: is_obj_def)

lemma saved_tracks_loop_objects:
  assumes "saved_tracks_loop raw [] = Inr processed"
  shows "list_all is_obj processed"
proof -
  from saved_tracks_loop_acc [OF assms]
  have "mapE (\<lambda>row. saved_track_record row (the_track row)) (filter has_track raw) = Inr processed"
    by simp
  then show ?thesis
    by (rule mapE_all) (rule saved_track_record_obj)
qed

text \<open>
  C5. The list of track IDs that \<^verbatim>\<open>main\<close> derives from the saved tracks and passes to
  the audio-features extraction. On every normalised saved-tracks list (and on every
  list of dictionaries) the derivation returns, and its result is the \<open>track_id\<close>
  values, in order, of exactly the records that are \<open>wanted\<close>: those whose
  \<open>track_id\<close> is true as a condition and whose \<open>is_local\<close> is not. A record with a
  null \<open>track_id\<close> is never wanted, nor is one flagged local; for a string
  \<open>track_id\<close>, wanted means non-empty and not flagged local.
\<close>

theorem derived_track_ids:
  "(\<forall>processed. saved_tracks_loop raw [] = Inr processed \<longrightarrow>
      saved_track_ids processed = Inr (map track_id_of (filter wanted processed)))
   \<and> (list_all is_obj recs \<longrightarrow>
      saved_track_ids recs = Inr (map track_id_of (filter wanted recs)))
   \<and> (\<forall>t. (track_id_of t = JNull \<longrightarrow> \<not> wanted t)
         \<and> (truthy (is_local_of t) \<longrightarrow> \<not> wanted t)
         \<and> (\<forall>s. track_id_of t = JStr s \<longrightarrow> wanted t = (s \<noteq> [] \<and> \<not> truthy (is_local_of t))))"
proof (intro conjI allI impI)
  fix processed
  assume "saved_tracks_loop raw [] = Inr processed"
  then have "list_all is_obj processed"
    by (rule saved_tracks_loop_objects)
  then show "saved_track_ids processed = Inr (map track_id_of (filter wanted processed))"
    by (rule saved_track_ids_objects)
next
  assume "list_all is_obj recs"
  then show "saved_track_ids recs = Inr (map track_id_of (filter wanted recs))"
    by (rule saved_track_ids_objects)
next
  fix t
  assume "track_id_of t = JNull"
  then show "\<not> wanted t" by (simp add: wanted_def)
next
  fix t
  assume "truthy (is_local_of t)"
  then show "\<not> wanted t" by (simp add: wanted_def)
next
  fix t s
  assume "track_id_of t = JStr s"
  then show "wanted t = (s \<noteq> [] \<and> \<not> truthy (is_local_of t))"
    by (simp add: wanted_def)
qed

theorem derived_track_ids_witness:
  "saved_track_ids
     [id_record ''kept'' (JStr ''t1'') (JBool False),
      id_record ''null id, local'' JNull (JBool True),
      id_record ''null id, not local'' JNull (JBool False),
      id_record ''local with id'' (JStr ''t4'') (JBool True),
      id_record ''empty id'' (JStr '''') (JBool False),
      example_record]
   = Inr [JStr ''t1'', JStr ''t1'']
   \<and> saved_tracks_loop [example_row] [] = Inr [example_record]
   \<and> saved_track_ids [example_record] = Inr [JStr ''t1'']"
proof -
  let ?recs = "[id_record ''kept'' (JStr ''t1'') (JBool False),
      id_record ''null id, local'' JNull (JBool True),
      id_record ''null id, not local'' JNull (JBool False),
      id_record ''local with id'' (JStr ''t4'') (JBool True),
      id_record ''empty id'' (JStr '''') (JBool False),
      example_record]"
  have o: "list_all is_obj ?recs"
    by (simp add: is_obj_def id_record_def example_record_def)
  have f: "map track_id_of (filter wanted ?recs) = [JStr ''t1'', JStr ''t1'']"
    by (simp add: wanted_def track_id_of_def is_local_of_def id_record_def example_record_def)
  have g: "map track_id_of (filter wanted [example_record]) = [JStr ''t1'']"
    by (simp add: wanted_def track_id_of_def is_local_of_def example_record_def)
  from derived_track_ids [of "[example_row]" ?recs] o f g example_loop show ?thesis
    by simp
qed

section \<open>Audio features\<close>

lemma log_msg_fields:
  "responses (log_msg lvl fmt args w) = responses w"
  "calls (log_msg lvl fmt args w) = calls w"
  "writes (log_msg lvl fmt args w) = writes w"
  "clock (log_msg lvl fmt args w) = clock w"
  "ticks (log_msg lvl fmt args w) = ticks w"
  "environ (log_msg lvl fmt args w) = environ w"
  "logs (log_msg lvl fmt args w) = logs w @ [(lvl, fmt, args)]"
  by (simp_all add: log_msg_def)

lemma dump_json_fields:
  "fst (dump_json payload prefix w) = snapshot_path prefix w"
  "responses (snd (dump_json payload prefix w)) = responses w"
  "calls (snd (dump_json payload prefix w)) = calls w"
  "writes (snd (dump_json payload prefix w)) = writes w @ [(snapshot_path prefix w, payload)]"
  "clock (snd (dump_json payload prefix w)) = clock w"
  "ticks (snd (dump_json payload prefix w)) = Suc (ticks w)"
  "environ (snd (dump_json payload prefix w)) = environ w"
  "logs (snd (dump_json payload prefix w)) = logs w @ [(INFO, ''Saved -> %s'', [ArgStr (snapshot_path prefix w)])]"
  by (simp_all add: dump_json_def timestamp_def log_msg_def snapshot_path_def Let_def)

lemma audio_features_loop_run:
  "responses w = map Inr feats @ rest \<Longrightarrow> length feats = length groups \<Longrightarrow>
   mapE batch_items feats = Inr fss \<Longrightarrow>
   audio_features_loop groups acc w =
     (Returned (acc @ concat (map (filter truthy) fss)),
      w\<lparr>responses := rest, calls := calls w @ map AudioFeatures groups\<rparr>)"
proof (induction groups arbitrary: feats fss acc w)
  case Nil
  then show ?case
    by (simp add: returnW_def)
next
  case (Cons g groups)
  from Cons.prems(2) obtain r feats' where f: "feats = r # feats'" "length feats' = length groups"
    by (cases feats) auto
  from Cons.prems(3) f(1) obtain fs fss' where fs: "batch_items r = Inr fs"
      "mapE batch_items feats' = Inr fss'" "fss = fs # fss'"
    using mapE_Cons_Inr [of batch_items r feats' fss] by blast
  let ?w1 = "w\<lparr>responses := map Inr feats' @ rest, calls := calls w @ [AudioFeatures g]\<rparr>"
  have c: "sp_call (AudioFeatures g) w = (Returned r, ?w1)"
    using Cons.prems(1) f(1) by (simp add: sp_call_Inr)
  have "audio_features_loop groups (acc @ filter truthy fs) ?w1 =
     (Returned ((acc @ filter truthy fs) @ concat (map (filter truthy) fss')),
      ?w1\<lparr>responses := rest, calls := calls ?w1 @ map AudioFeatures groups\<rparr>)"
    by (rule Cons.IH [OF _ f(2) fs(2)]) simp
  then show ?case
    using fs(1,3)
    by (simp add: bindW_Returned [where m = "sp_call (AudioFeatures g)", OF c]
        bindW_liftE_Inr batch_items_def)
qed

lemma chunk_150:
  assumes "length ids = 150"
  shows "chunk_from ids 100 0 = [take 100 ids, drop 100 ids]"
proof -
  have "chunk_from ids 100 200 = []"
    using assms by (subst chunk_from.simps) simp
  then have "chunk_from ids 100 100 = [take 100 (drop 100 ids)]"
    using assms by (subst chunk_from.simps) simp
  then have "chunk_from ids 100 0 = [take 100 ids, take 100 (drop 100 ids)]"
    using assms by (subst chunk_from.simps) simp
  then show ?thesis
    using assms by simp
qed

lemma chunk_batch:
  "chunk valid_ids AUDIO_FEATURES_BATCH = Inr (chunk_from valid_ids 100 0)"
  by (simp add: chunk_def AUDIO_FEATURES_BATCH_def)

lemma collect_audio_features_empty:
  assumes "filter truthy track_ids = []"
  shows "collect_audio_features_for_tracks track_ids prefix w =
     (Returned [], log_msg WARNING ''No valid track IDs for audio features.'' [] w)"
  using assms
  by (simp add: collect_audio_features_for_tracks_def bindW_logW returnW_def)

lemma collect_audio_features_run:
  assumes ne: "filter truthy track_ids \<noteq> []"
    and r: "responses w = map Inr feats @ rest"
    and n: "length feats = length (chunk_from (filter truthy track_ids) 100 0)"
    and m: "mapE batch_items feats = Inr fss"
  shows "collect_audio_features_for_tracks track_ids prefix w =
     (Returned (concat (map (filter truthy) fss)),
      log_msg INFO ''Audio features rows: %d'' [ArgInt (int (length (concat (map (filter truthy) fss))))]
        (snd (dump_json (JList (concat (map (filter truthy) fss))) prefix
           ((log_msg INFO ''Fetching audio features for %d tracks ...''
               [ArgInt (int (length (filter truthy track_ids)))] w)
            \<lparr>responses := rest,
              calls := calls w @ map AudioFeatures (chunk_from (filter truthy track_ids) 100 0)\<rparr>))))"
proof -
  let ?valid = "filter truthy track_ids"
  let ?w1 = "log_msg INFO ''Fetching audio features for %d tracks ...'' [ArgInt (int (length ?valid))] w"
  let ?groups = "chunk_from ?valid 100 0"
  have "audio_features_loop ?groups [] ?w1 =
     (Returned ([] @ concat (map (filter truthy) fss)),
      ?w1\<lparr>responses := rest, calls := calls ?w1 @ map AudioFeatures ?groups\<rparr>)"
    using r by (intro audio_features_loop_run [OF _ n m]) (simp add: log_msg_fields)
  then have l: "audio_features_loop ?groups [] ?w1 =
     (Returned (concat (map (filter truthy) fss)),
      ?w1\<lparr>responses := rest, calls := calls w @ map AudioFeatures ?groups\<rparr>)"
    by (simp add: log_msg_fields)
  show ?thesis
    using ne
    by (simp add: collect_audio_features_for_tracks_def Let_def bindW_logW chunk_batch bindW_liftE_Inr
        bindW_Returned [where m = "audio_features_loop ?groups []", OF l] bindW_dumpW returnW_def)
qed

text \<open>
  C3. Audio features for a list of track IDs. The IDs that are null or empty are
  filtered out first. If none is left, the method logs a warning and returns the empty
  list; it writes no file and sends no request. Otherwise, when the API answers each
  batch with something iterable (a list, or nothing at all), the method sends exactly
  one \<open>AudioFeatures\<close> request per batch of the filtered IDs, in order; the batches
  have at most 100 IDs each and together are the filtered list; the result is the
  concatenation, batch by batch, of the answers without their null entries, and it is
  written to one snapshot file. With 150 filtered IDs there are exactly two batches,
  the first 100 IDs and the remaining 50.
\<close>

theorem audio_features_batches:
  "(filter truthy track_ids = [] \<longrightarrow>
      collect_audio_features_for_tracks track_ids prefix w =
        (Returned [], log_msg WARNING ''No valid track IDs for audio features.'' [] w)
      \<and> writes (snd (collect_audio_features_for_tracks track_ids prefix w)) = writes w
      \<and> calls (snd (collect_audio_features_for_tracks track_ids prefix w)) = calls w)
   \<and> (filter truthy track_ids \<noteq> [] \<and> responses w = map Inr feats @ rest
       \<and> length feats = length (chunk_from (filter truthy track_ids) 100 0)
       \<and> mapE batch_items feats = Inr fss \<longrightarrow>
      (\<exists>w'. collect_audio_features_for_tracks track_ids prefix w =
               (Returned (concat (map (filter truthy) fss)), w')
         \<and> calls w' = calls w @ map AudioFeatures (chunk_from (filter truthy track_ids) 100 0)
         \<and> responses w' = rest
         \<and> writes w' = writes w @ [(snapshot_path prefix w, JList (concat (map (filter truthy) fss)))])
      \<and> concat (chunk_from (filter truthy track_ids) 100 0) = filter truthy track_ids
      \<and> list_all (\<lambda>g. length g \<le> 100) (chunk_from (filter truthy track_ids) 100 0))
   \<and> (length (filter truthy track_ids) = 150 \<longrightarrow>
      chunk_from (filter truthy track_ids) 100 0
        = [take 100 (filter truthy track_ids), drop 100 (filter truthy track_ids)])"
proof (intro conjI impI)
  assume e: "filter truthy track_ids = []"
  show c: "collect_audio_features_for_tracks track_ids prefix w =
        (Returned [], log_msg WARNING ''No valid track IDs for audio features.'' [] w)"
    using e by (rule collect_audio_features_empty)
  show "writes (snd (collect_audio_features_for_tracks track_ids prefix w)) = writes w"
    by (simp add: c log_msg_fields)
  show "calls (snd (collect_audio_features_for_tracks track_ids prefix w)) = calls w"
    by (simp add: c log_msg_fields)
next
  assume a: "filter truthy track_ids \<noteq> [] \<and> responses w = map Inr feats @ rest
       \<and> length feats = length (chunk_from (filter truthy track_ids) 100 0)
       \<and> mapE batch_items feats = Inr fss"
  from a have a1: "filter truthy track_ids \<noteq> []" and a2: "responses w = map Inr feats @ rest"
    and a3: "length feats = length (chunk_from (filter truthy track_ids) 100 0)"
    and a4: "mapE batch_items feats = Inr fss"
    by blast+
  have run: "collect_audio_features_for_tracks track_ids prefix w =
     (Returned (concat (map (filter truthy) fss)),
      log_msg INFO ''Audio features rows: %d'' [ArgInt (int (length (concat (map (filter truthy) fss))))]
        (snd (dump_json (JList (concat (map (filter truthy) fss))) prefix
           ((log_msg INFO ''Fetching audio features for %d tracks ...''
               [ArgInt (int (length (filter truthy track_ids)))] w)
            \<lparr>responses := rest,
              calls := calls w @ map AudioFeatures (chunk_from (filter truthy track_ids) 100 0)\<rparr>))))"
    by (rule collect_audio_features_run [OF a1 a2 a3 a4])
  show "\<exists>w'. collect_audio_features_for_tracks track_ids prefix w =
               (Returned (concat (map (filter truthy) fss)), w')
         \<and> calls w' = calls w @ map AudioFeatures (chunk_from (filter truthy track_ids) 100 0)
         \<and> responses w' = rest
         \<and> writes w' = writes w @ [(snapshot_path prefix w, JList (concat (map (filter truthy) fss)))]"
    by (subst run, rule exI, intro conjI, rule refl)
       (simp_all add: log_msg_fields dump_json_fields snapshot_path_def)
  show "concat (chunk_from (filter truthy track_ids) 100 0) = filter truthy track_ids"
    using concat_chunk_from [of 100 "filter truthy track_ids" 0] by simp
  show "list_all (\<lambda>g. length g \<le> 100) (chunk_from (filter truthy track_ids) 100 0)"
    using chunk_from_bounded [of _ "filter truthy track_ids" 100 0] by (auto simp: list_all_iff)
next
  assume "length (filter truthy track_ids) = 150"
  then show "chunk_from (filter truthy track_ids) 100 0
        = [take 100 (filter truthy track_ids), drop 100 (filter truthy track_ids)]"
    by (rule chunk_150)
qed

lemma demo_snapshot_path:
  "snapshot_path ''saved_tracks_audio_features'' demo_world
     = ''spotify_data/saved_tracks_audio_features_20240102_030405.json''"
  by (simp add: snapshot_path_def demo_world_def strftime_def zero_pad_def digit_char_def
      path_join_def DATA_DIR_def)

lemma ids_150_valid: "filter truthy (JNull # ids_150 @ [JStr []]) = ids_150"
proof -
  have "filter truthy ids_150 = ids_150"
    by (simp add: ids_150_def filter_map o_def)
  then show ?thesis by simp
qed

lemma ids_150_length: "length ids_150 = 150"
  by (simp add: ids_150_def)

theorem audio_features_batches_witness:
  "(\<exists>w'. collect_audio_features_for_tracks (JNull # ids_150 @ [JStr []]) ''saved_tracks_audio_features''
            (demo_world\<lparr>responses := [Inr (JList [feat_a, JNull]), Inr (JList [JNull, feat_b])]\<rparr>)
          = (Returned [feat_a, feat_b], w')
      \<and> calls w' = [AudioFeatures (take 100 ids_150), AudioFeatures (drop 100 ids_150)]
      \<and> responses w' = []
      \<and> writes w' = [(''spotify_data/saved_tracks_audio_features_20240102_030405.json'',
                      JList [feat_a, feat_b])])
   \<and> length (take 100 ids_150) = 100 \<and> length (drop 100 ids_150) = 50
   \<and> collect_audio_features_for_tracks [JNull, JStr []] ''saved_tracks_audio_features'' demo_world
       = (Returned [], log_msg WARNING ''No valid track IDs for audio features.'' [] demo_world)"
proof -
  let ?w = "demo_world\<lparr>responses := [Inr (JList [feat_a, JNull]), Inr (JList [JNull, feat_b])]\<rparr>"
  have c: "chunk_from ids_150 100 0 = [take 100 ids_150, drop 100 ids_150]"
    using ids_150_length by (rule chunk_150)
  have ne: "ids_150 \<noteq> []"
    using ids_150_length by auto
  have p: "snapshot_path ''saved_tracks_audio_features'' ?w
     = ''spotify_data/saved_tracks_audio_features_20240102_030405.json''"
    using demo_snapshot_path by (simp add: snapshot_path_def)
  have t: "truthy feat_a" "truthy feat_b"
    by (simp_all add: feat_a_def feat_b_def)
  have m: "mapE batch_items [JList [feat_a, JNull], JList [JNull, feat_b]]
     = Inr [[feat_a, JNull], [JNull, feat_b]]"
    by (simp add: batch_items_def py_or_def)
  have d: "calls demo_world = []" "writes demo_world = []"
    by (simp_all add: demo_world_def)
  have hyp: "filter truthy (JNull # ids_150 @ [JStr []]) \<noteq> []
      \<and> responses ?w = map Inr [JList [feat_a, JNull], JList [JNull, feat_b]] @ []
      \<and> length [JList [feat_a, JNull], JList [JNull, feat_b]]
          = length (chunk_from (filter truthy (JNull # ids_150 @ [JStr []])) 100 0)
      \<and> mapE batch_items [JList [feat_a, JNull], JList [JNull, feat_b]]
          = Inr [[feat_a, JNull], [JNull, feat_b]]"
    by (simp add: ids_150_valid c ne m del: filter.simps mapE.simps)
  have e: "filter truthy [JNull, JStr []] = []"
    by simp
  note run = audio_features_batches [of "JNull # ids_150 @ [JStr []]" "''saved_tracks_audio_features''" "?w"
      "[JList [feat_a, JNull], JList [JNull, feat_b]]" "[]" "[[feat_a, JNull], [JNull, feat_b]]",
      THEN conjunct2, THEN conjunct1, THEN mp, OF hyp, THEN conjunct1]
  note early = audio_features_batches [of "[JNull, JStr []]" "''saved_tracks_audio_features''" demo_world,
      THEN conjunct1, THEN mp, OF e, THEN conjunct1]
  have "concat (map (filter truthy) [[feat_a, JNull], [JNull, feat_b]]) = [feat_a, feat_b]"
    by (simp add: t)
  with run have "\<exists>w'. collect_audio_features_for_tracks (JNull # ids_150 @ [JStr []]) ''saved_tracks_audio_features'' ?w
          = (Returned [feat_a, feat_b], w')
      \<and> calls w' = [AudioFeatures (take 100 ids_150), AudioFeatures (drop 100 ids_150)]
      \<and> responses w' = []
      \<and> writes w' = [(''spotify_data/saved_tracks_audio_features_20240102_030405.json'',
                      JList [feat_a, feat_b])]"
    by (simp add: ids_150_valid c p d del: filter.simps)
  with early show ?thesis
    by (simp add: ids_150_length)
qed

section \<open>First playlist\<close>

lemma sp_call_frame:
  assumes "sp_call req w = (out, w')"
  shows "calls w' = calls w @ [req]" "writes w' = writes w" "ticks w' = ticks w"
    "clock w' = clock w" "logs w' = logs w" "environ w' = environ w"
  using assms by (auto simp: sp_call_def split: list.splits)

lemma follow_next_frame:
  "follow_next page items w = (out, w') \<Longrightarrow>
     (\<exists>more. calls w' = calls w @ more) \<and> writes w' = writes w \<and> ticks w' = ticks w
     \<and> clock w' = clock w \<and> logs w' = logs w \<and> environ w' = environ w"
proof (induction page items w rule: follow_next.induct)
  case (1 page items w)
  show ?case
  proof (cases "dict_get page ''next'' JNull")
    case (Inl e)
    with "1.prems" have "w' = w"
      by (subst (asm) follow_next.simps) simp
    then show ?thesis by simp
  next
    case (Inr nx)
    show ?thesis
    proof (cases "truthy nx")
      case False
      with "1.prems" Inr have "w' = w"
        by (subst (asm) follow_next.simps) simp
      then show ?thesis by simp
    next
      case True
      obtain o1 w1 where c: "sp_call (NextPage page) w = (o1, w1)"
        by (cases "sp_call (NextPage page) w")
      note f = sp_call_frame [OF c]
      show ?thesis
      proof (cases o1)
        case (Returned p)
        show ?thesis
        proof (cases "page_items p")
          case (Inl e)
          with "1.prems" Inr True c Returned have "w' = w1"
            by (subst (asm) follow_next.simps) simp
          with f show ?thesis by simp
        next
          case its: (Inr its)
          with "1.prems" Inr True c Returned have "follow_next p (items @ its) w1 = (out, w')"
            by (subst (asm) follow_next.simps) simp
          from "1.IH" [OF Inr True c [symmetric] Returned its this] f show ?thesis
            by auto
        qed
      next
        case (Raised e)
        with "1.prems" Inr True c have "w' = w1"
          by (subst (asm) follow_next.simps) simp
        with f show ?thesis by simp
      next
        case NoAnswer
        with "1.prems" Inr True c have "w' = w1"
          by (subst (asm) follow_next.simps) simp
        with f show ?thesis by simp
      qed
    qed
  qed
qed

lemma collect_first_playlist_tracks_empty:
  "collect_first_playlist_tracks [] w =
     (Returned None, log_msg WARNING ''No playlists found; skipping playlist item extraction.'' [] w)"
  by (simp add: collect_first_playlist_tracks_def bindW_logW returnW_def)

lemma collect_first_playlist_tracks_first:
  "collect_first_playlist_tracks (first # others) w = collect_first_playlist_tracks [first] w"
  by (simp add: collect_first_playlist_tracks_def)

lemma grows_bindW:
  assumes "grows m" "\<And>x. grows (f x)"
  shows "grows (bindW m f)"
  unfolding grows_def
proof
  fix w
  obtain out w1 where m: "m w = (out, w1)"
    by (cases "m w")
  from assms(1) m obtain more1 where c1: "calls w1 = calls w @ more1"
    unfolding grows_def by (metis snd_conv)
  show "\<exists>more. calls (snd (bindW m f w)) = calls w @ more"
  proof (cases out)
    case (Returned x)
    from assms(2) [of x] obtain more2 where "calls (snd (f x w1)) = calls w1 @ more2"
      unfolding grows_def by blast
    with c1 m Returned show ?thesis
      by (simp add: bindW_def)
  next
    case (Raised e)
    with c1 m show ?thesis by (simp add: bindW_def)
  next
    case NoAnswer
    with c1 m show ?thesis by (simp add: bindW_def)
  qed
qed

lemma grows_sp_call: "grows (sp_call req)"
  unfolding grows_def
proof
  fix w
  obtain out w1 where c: "sp_call req w = (out, w1)"
    by (cases "sp_call req w")
  from sp_call_frame(1) [OF c] c show "\<exists>more. calls (snd (sp_call req w)) = calls w @ more"
    by simp
qed

lemma grows_follow_next: "grows (follow_next page items)"
  unfolding grows_def
proof
  fix w
  obtain out w1 where c: "follow_next page items w = (out, w1)"
    by (cases "follow_next page items w")
  from follow_next_frame [OF c] c show "\<exists>more. calls (snd (follow_next page items w)) = calls w @ more"
    by simp
qed

lemma grows_liftE: "grows (liftE x)"
  by (cases x) (simp_all add: grows_def)

lemma grows_logW: "grows (logW lvl fmt args)"
  by (simp add: grows_def logW_def log_msg_fields)

lemma grows_dumpW: "grows (dumpW payload prefix)"
  by (simp add: grows_def dumpW_def split_def dump_json_fields)

lemma grows_returnW: "grows (returnW x)"
  by (simp add: grows_def returnW_def)

lemmas grows_intros =
  grows_bindW grows_sp_call grows_follow_next grows_liftE grows_logW grows_dumpW grows_returnW

lemma calls_after_request:
  assumes "\<And>page. grows (f page)"
  shows "\<exists>more. calls (snd (bindW (sp_call req) f w)) = calls w @ req # more"
proof -
  obtain out w1 where c: "sp_call req w = (out, w1)"
    by (cases "sp_call req w")
  note c1 = sp_call_frame(1) [OF c]
  show ?thesis
  proof (cases out)
    case (Returned page)
    from assms [of page] obtain more where "calls (snd (f page w1)) = calls w1 @ more"
      unfolding grows_def by blast
    with c c1 Returned show ?thesis
      by (simp add: bindW_def)
  next
    case (Raised e)
    with c c1 show ?thesis by (simp add: bindW_def)
  next
    case NoAnswer
    with c c1 show ?thesis by (simp add: bindW_def)
  qed
qed

lemma collect_first_playlist_tracks_request:
  assumes "getitem first ''playlist_id'' = Inr pl_id" "getitem first ''playlist_name'' = Inr pl_name"
  shows "\<exists>more. calls (snd (collect_first_playlist_tracks (first # others) w))
           = calls w @ PlaylistItems pl_id PLAYLIST_ITEMS_BATCH # more"
proof -
  have "\<exists>more. calls (snd (collect_first_playlist_tracks (first # others) w))
     = calls (log_msg INFO (''Fetching tracks for playlist: '' @ [CHR 0x27] @ ''%s'' @ [CHR 0x27] @ '' (%s)'')
                [ArgVal pl_name, ArgVal pl_id] w) @ PlaylistItems pl_id PLAYLIST_ITEMS_BATCH # more"
    unfolding collect_first_playlist_tracks_def list.case
    by (simp only: assms bindW_liftE_Inr bindW_logW)
       (intro calls_after_request grows_intros)
  then show ?thesis
    by (simp only: log_msg_fields)
qed

lemma playlist_record_raw: "playlist_record (raw_playlist pid name) = Inr (playlist_of pid name)"
  by (simp add: playlist_record_def raw_playlist_def playlist_of_def nested_get_def py_or_def)

lemma playlist_record_keys:
  assumes "playlist_record pl = Inr r"
  shows "\<exists>pl_id pl_name. getitem r ''playlist_id'' = Inr pl_id \<and> getitem r ''playlist_name'' = Inr pl_name"
  using assms unfolding playlist_record_def bindE_Inr_iff by auto

text \<open>
  C6. The tracks of the first playlist. On the empty list of playlists the method logs
  a warning and returns \<^verbatim>\<open>None\<close>: no records, no file written, no request sent, no
  exception. On a non-empty list only the first entry matters: the method behaves as
  on the one-element list of that entry, whatever follows it, and the first request
  it sends asks for the items of that entry's \<open>playlist_id\<close>. The entries produced by
  the playlist extraction always carry the two keys read here.
\<close>

theorem first_playlist_selection:
  "collect_first_playlist_tracks [] w =
     (Returned None, log_msg WARNING ''No playlists found; skipping playlist item extraction.'' [] w)
   \<and> writes (snd (collect_first_playlist_tracks [] w)) = writes w
   \<and> calls (snd (collect_first_playlist_tracks [] w)) = calls w
   \<and> collect_first_playlist_tracks (first # others) w = collect_first_playlist_tracks [first] w
   \<and> (getitem first ''playlist_id'' = Inr pl_id \<and> getitem first ''playlist_name'' = Inr pl_name
        \<longrightarrow> (\<exists>more. calls (snd (collect_first_playlist_tracks (first # others) w))
                    = calls w @ PlaylistItems pl_id PLAYLIST_ITEMS_BATCH # more))
   \<and> (mapE playlist_record raw = Inr (first # others)
        \<longrightarrow> (\<exists>pl_id pl_name. getitem first ''playlist_id'' = Inr pl_id
               \<and> getitem first ''playlist_name'' = Inr pl_name))"
proof (intro conjI impI)
  show e: "collect_first_playlist_tracks [] w =
     (Returned None, log_msg WARNING ''No playlists found; skipping playlist item extraction.'' [] w)"
    by (rule collect_first_playlist_tracks_empty)
  show "writes (snd (collect_first_playlist_tracks [] w)) = writes w"
    by (simp add: e log_msg_fields)
  show "calls (snd (collect_first_playlist_tracks [] w)) = calls w"
    by (simp add: e log_msg_fields)
  show "collect_first_playlist_tracks (first # others) w = collect_first_playlist_tracks [first] w"
    by (rule collect_first_playlist_tracks_first)
next
  assume "getitem first ''playlist_id'' = Inr pl_id \<and> getitem first ''playlist_name'' = Inr pl_name"
  then have g: "getitem first ''playlist_id'' = Inr pl_id" "getitem first ''playlist_name'' = Inr pl_name"
    by simp_all
  show "\<exists>more. calls (snd (collect_first_playlist_tracks (first # others) w))
                    = calls w @ PlaylistItems pl_id PLAYLIST_ITEMS_BATCH # more"
    by (rule collect_first_playlist_tracks_request [OF g])
next
  assume "mapE playlist_record raw = Inr (first # others)"
  then have "list_all (\<lambda>r. \<exists>pl_id pl_name. getitem r ''playlist_id'' = Inr pl_id
      \<and> getitem r ''playlist_name'' = Inr pl_name) (first # others)"
    by (rule mapE_all) (rule playlist_record_keys)
  then show "\<exists>pl_id pl_name. getitem first ''playlist_id'' = Inr pl_id
      \<and> getitem first ''playlist_name'' = Inr pl_name"
    by simp
qed

theorem first_playlist_selection_witness:
  "getitem playlist_z ''playlist_id'' = Inr (JStr ''p9'')
   \<and> getitem playlist_z ''playlist_name'' = Inr (JStr ''Zebra'')
   \<and> mapE playlist_record [raw_playlist ''p9'' ''Zebra'', raw_playlist ''p1'' ''Alpha'']
       = Inr [playlist_z, playlist_a]
   \<and> (\<exists>more. calls (snd (collect_first_playlist_tracks [playlist_z, playlist_a] demo_world))
         = PlaylistItems (JStr ''p9'') 100 # more)
   \<and> collect_first_playlist_tracks [playlist_z, playlist_a] demo_world
       = collect_first_playlist_tracks [playlist_z] demo_world
   \<and> fst (collect_first_playlist_tracks [] demo_world) = Returned None
   \<and> writes (snd (collect_first_playlist_tracks [] demo_world)) = []"
proof -
  have g: "getitem playlist_z ''playlist_id'' = Inr (JStr ''p9'')
      \<and> getitem playlist_z ''playlist_name'' = Inr (JStr ''Zebra'')"
    by (simp add: playlist_z_def playlist_of_def)
  have m: "mapE playlist_record [raw_playlist ''p9'' ''Zebra'', raw_playlist ''p1'' ''Alpha'']
       = Inr [playlist_z, playlist_a]"
    by (simp add: playlist_record_raw playlist_z_def playlist_a_def)
  have d: "calls demo_world = []" "writes demo_world = []"
    by (simp_all add: demo_world_def)
  note t = first_playlist_selection [of demo_world playlist_z "[playlist_a]" "JStr ''p9''" "JStr ''Zebra''"
      "[raw_playlist ''p9'' ''Zebra'', raw_playlist ''p1'' ''Alpha'']"]
  from t [THEN conjunct2, THEN conjunct2, THEN conjunct2, THEN conjunct2, THEN conjunct1, THEN mp, OF g]
  have r: "\<exists>more. calls (snd (collect_first_playlist_tracks [playlist_z, playlist_a] demo_world))
         = PlaylistItems (JStr ''p9'') 100 # more"
    by (simp add: d PLAYLIST_ITEMS_BATCH_def)
  from t g m r d show ?thesis
    by (simp add: log_msg_fields del: mapE.simps)
qed

section \<open>Entry point: configuration and authentication\<close>

lemma check_env_Some:
  "check_env vars w = Some e \<Longrightarrow>
     \<exists>var. var \<in> set vars \<and> \<not> getenv_set w var \<and> e = RuntimeError (missing_message var)
       \<and> list_all (getenv_set w) (takeWhile (\<lambda>v. v \<noteq> var) vars)"
proof (induction vars)
  case Nil
  then show ?case by simp
next
  case (Cons v vars)
  show ?case
  proof (cases "getenv_set w v")
    case False
    with Cons.prems have "e = RuntimeError (missing_message v)"
      by simp
    with False show ?thesis
      by (intro exI [of _ v]) simp
  next
    case True
    with Cons.prems have "check_env vars w = Some e"
      by simp
    from Cons.IH [OF this] obtain var where
      var: "var \<in> set vars" "\<not> getenv_set w var" "e = RuntimeError (missing_message var)"
        "list_all (getenv_set w) (takeWhile (\<lambda>v. v \<noteq> var) vars)"
      by blast
    from var(2) True have "v \<noteq> var" by auto
    with var True show ?thesis
      by (intro exI [of _ var]) simp
  qed
qed

lemma check_env_None: "check_env vars w = None \<longleftrightarrow> list_all (getenv_set w) vars"
  by (induction vars) auto

lemma main_config_error: "check_env required_vars w = Some e \<Longrightarrow> main w = (Raised e, w)"
  by (simp add: main_def)

text \<open>
  C7. When one of the three required environment variables is unset or empty,
  \<^verbatim>\<open>main\<close> raises a \<^verbatim>\<open>RuntimeError\<close> whose message names a missing variable (the
  first one in the order of the check) and leaves the world as it found it: no
  request has been sent, no file written, nothing logged, so no extraction step has
  run.
\<close>

theorem main_missing_configuration:
  "required_vars = [''SPOTIPY_CLIENT_ID'', ''SPOTIPY_CLIENT_SECRET'', ''SPOTIPY_REDIRECT_URI'']
   \<and> (\<not> list_all (getenv_set w) required_vars \<longrightarrow>
        (\<exists>var. var \<in> set required_vars \<and> \<not> getenv_set w var
           \<and> list_all (getenv_set w) (takeWhile (\<lambda>v. v \<noteq> var) required_vars)
           \<and> main w = (Raised (RuntimeError
                 (''Missing environment variable: '' @ var @ ''. Set it before running this script.'')), w)
           \<and> calls (snd (main w)) = calls w \<and> writes (snd (main w)) = writes w
           \<and> logs (snd (main w)) = logs w \<and> responses (snd (main w)) = responses w))"
proof (intro conjI impI)
  show "required_vars = [''SPOTIPY_CLIENT_ID'', ''SPOTIPY_CLIENT_SECRET'', ''SPOTIPY_REDIRECT_URI'']"
    by (simp add: required_vars_def)
next
  assume "\<not> list_all (getenv_set w) required_vars"
  then obtain e where e: "check_env required_vars w = Some e"
    using check_env_None [of required_vars w] by (cases "check_env required_vars w") auto
  from check_env_Some [OF e] obtain var where
    var: "var \<in> set required_vars" "\<not> getenv_set w var" "e = RuntimeError (missing_message var)"
      "list_all (getenv_set w) (takeWhile (\<lambda>v. v \<noteq> var) required_vars)"
    by blast
  have m: "main w = (Raised (RuntimeError
      (''Missing environment variable: '' @ var @ ''. Set it before running this script.'')), w)"
    using main_config_error [OF e] var(3) by (simp add: missing_message_def)
  show "\<exists>var. var \<in> set required_vars \<and> \<not> getenv_set w var
           \<and> list_all (getenv_set w) (takeWhile (\<lambda>v. v \<noteq> var) required_vars)
           \<and> main w = (Raised (RuntimeError
                 (''Missing environment variable: '' @ var @ ''. Set it before running this script.'')), w)
           \<and> calls (snd (main w)) = calls w \<and> writes (snd (main w)) = writes w
           \<and> logs (snd (main w)) = logs w \<and> responses (snd (main w)) = responses w"
    using var(1,2,4) m by (intro exI [of _ var]) simp
qed

theorem main_missing_configuration_witness:
  "\<not> list_all (getenv_set (demo_world\<lparr>environ := demo_environ(''SPOTIPY_CLIENT_SECRET'' := None),
         responses := [Inr page_a]\<rparr>)) required_vars
   \<and> main (demo_world\<lparr>environ := demo_environ(''SPOTIPY_CLIENT_SECRET'' := None),
         responses := [Inr page_a]\<rparr>)
     = (Raised (RuntimeError
          ''Missing environment variable: SPOTIPY_CLIENT_SECRET. Set it before running this script.''),
        demo_world\<lparr>environ := demo_environ(''SPOTIPY_CLIENT_SECRET'' := None),
         responses := [Inr page_a]\<rparr>)"
proof -
  let ?w = "demo_world\<lparr>environ := demo_environ(''SPOTIPY_CLIENT_SECRET'' := None),
         responses := [Inr page_a]\<rparr>"
  have g: "getenv_set ?w ''SPOTIPY_CLIENT_ID''" "\<not> getenv_set ?w ''SPOTIPY_CLIENT_SECRET''"
      "getenv_set ?w ''SPOTIPY_REDIRECT_URI''"
    by (simp_all add: getenv_set_def demo_environ_def)
  have h: "\<not> list_all (getenv_set ?w) required_vars"
    using g by (simp add: required_vars_def)
  from main_missing_configuration [of ?w, THEN conjunct2, THEN mp, OF h] obtain var where
    var: "var \<in> set required_vars" "\<not> getenv_set ?w var"
      "main ?w = (Raised (RuntimeError
         (''Missing environment variable: '' @ var @ ''. Set it before running this script.'')), ?w)"
    by blast
  from var(1,2) g have "var = ''SPOTIPY_CLIENT_SECRET''"
    by (auto simp: required_vars_def)
  with var(3) h show ?thesis
    by simp
qed

lemma SpotifyCollector_init_Raised:
  assumes "SpotifyCollector_init scopes w = (Raised exc, w1)"
  shows "calls w1 = calls w @ [CurrentUser] \<and> writes w1 = writes w \<and> logs w1 = logs w
    \<and> responses w1 = tl (responses w)"
proof -
  obtain out w0 where c: "sp_call CurrentUser w = (out, w0)"
    by (cases "sp_call CurrentUser w")
  note f = sp_call_frame [OF c]
  have t: "responses w0 = tl (responses w)"
    using c by (auto simp: sp_call_def split: list.splits)
  show ?thesis
  proof (cases out)
    case (Returned me)
    show ?thesis
    proof (cases "dict_get me ''display_name'' JNull")
      case (Inl e)
      with assms c Returned have "w1 = w0"
        by (simp add: SpotifyCollector_init_def bindW_def)
      with f t show ?thesis by simp
    next
      case dn: (Inr dn)
      show ?thesis
      proof (cases "dict_get me ''id'' JNull")
        case (Inl e)
        with assms c Returned dn have "w1 = w0"
          by (simp add: SpotifyCollector_init_def bindW_def)
        with f t show ?thesis by simp
      next
        case (Inr i)
        with assms c Returned dn have False
          by (simp add: SpotifyCollector_init_def bindW_def logW_def)
        then show ?thesis ..
      qed
    qed
  next
    case (Raised e)
    with assms c have "w1 = w0"
      by (simp add: SpotifyCollector_init_def bindW_def)
    with f t show ?thesis by simp
  next
    case NoAnswer
    with assms c have False
      by (simp add: SpotifyCollector_init_def bindW_def)
    then show ?thesis ..
  qed
qed

lemma SpotifyCollector_init_api_error:
  "responses w = Inl e # rs \<Longrightarrow>
     SpotifyCollector_init scopes w = (Raised e, w\<lparr>responses := rs, calls := calls w @ [CurrentUser]\<rparr>)"
  by (simp add: SpotifyCollector_init_def bindW_def sp_call_def)

text \<open>
  C8. When the configuration is complete and the construction of the collector raises
  an exception, \<^verbatim>\<open>main\<close> returns normally: it logs the exception as an error and
  stops. The only request sent is the one of the constructor, no file is written, so
  no extraction step has run. In particular this is what happens when the API answers
  the first request with an error. A configuration error, by contrast, is raised by
  \<^verbatim>\<open>main\<close>.
\<close>

theorem main_authentication_failure:
  "(list_all (getenv_set w) required_vars \<and> SpotifyCollector_init SCOPES w = (Raised exc, w1) \<longrightarrow>
      main w = (Returned (), log_msg ERROR ''Authentication failed: %s'' [ArgErr exc] w1)
      \<and> writes (snd (main w)) = writes w
      \<and> calls (snd (main w)) = calls w @ [CurrentUser]
      \<and> logs (snd (main w)) = logs w @ [(ERROR, ''Authentication failed: %s'', [ArgErr exc])])
   \<and> (list_all (getenv_set w) required_vars \<and> responses w = Inl e # rs \<longrightarrow>
      SpotifyCollector_init SCOPES w = (Raised e, w\<lparr>responses := rs, calls := calls w @ [CurrentUser]\<rparr>)
      \<and> fst (main w) = Returned ())
   \<and> (check_env required_vars w = Some e' \<longrightarrow> main w = (Raised e', w))"
proof (intro conjI impI)
  assume a: "list_all (getenv_set w) required_vars \<and> SpotifyCollector_init SCOPES w = (Raised exc, w1)"
  then have n: "check_env required_vars w = None"
    by (simp add: check_env_None)
  from a have r: "SpotifyCollector_init SCOPES w = (Raised exc, w1)"
    by simp
  show m: "main w = (Returned (), log_msg ERROR ''Authentication failed: %s'' [ArgErr exc] w1)"
    by (simp add: main_def n r)
  note f = SpotifyCollector_init_Raised [OF r]
  show "writes (snd (main w)) = writes w"
    using f by (simp add: m log_msg_fields)
  show "calls (snd (main w)) = calls w @ [CurrentUser]"
    using f by (simp add: m log_msg_fields)
  show "logs (snd (main w)) = logs w @ [(ERROR, ''Authentication failed: %s'', [ArgErr exc])]"
    using f by (simp add: m log_msg_fields)
next
  assume a: "list_all (getenv_set w) required_vars \<and> responses w = Inl e # rs"
  then have n: "check_env required_vars w = None"
    by (simp add: check_env_None)
  from a show r: "SpotifyCollector_init SCOPES w
      = (Raised e, w\<lparr>responses := rs, calls := calls w @ [CurrentUser]\<rparr>)"
    by (intro SpotifyCollector_init_api_error) simp
  show "fst (main w) = Returned ()"
    by (simp add: main_def n r)
next
  assume "check_env required_vars w = Some e'"
  then show "main w = (Raised e', w)"
    by (rule main_config_error)
qed

theorem main_authentication_failure_witness:
  "list_all (getenv_set (demo_world\<lparr>environ := demo_environ,
       responses := [Inl (ApiError ''invalid_client''), Inr example_page]\<rparr>)) required_vars
   \<and> main (demo_world\<lparr>environ := demo_environ,
       responses := [Inl (ApiError ''invalid_client''), Inr example_page]\<rparr>)
     = (Returned (),
        demo_world\<lparr>environ := demo_environ, responses := [Inr example_page], calls := [CurrentUser],
          logs := [(ERROR, ''Authentication failed: %s'', [ArgErr (ApiError ''invalid_client'')])]\<rparr>)
   \<and> check_env required_vars demo_world
     = Some (RuntimeError (missing_message ''SPOTIPY_CLIENT_ID''))
   \<and> main demo_world = (Raised (RuntimeError (missing_message ''SPOTIPY_CLIENT_ID'')), demo_world)"
proof -
  let ?w = "demo_world\<lparr>environ := demo_environ,
       responses := [Inl (ApiError ''invalid_client''), Inr example_page]\<rparr>"
  have g: "list_all (getenv_set ?w) required_vars"
    by (simp add: getenv_set_def demo_environ_def required_vars_def)
  have r: "responses ?w = Inl (ApiError ''invalid_client'') # [Inr example_page]"
    by simp
  have c: "check_env required_vars demo_world = Some (RuntimeError (missing_message ''SPOTIPY_CLIENT_ID''))"
    by (simp add: required_vars_def getenv_set_def demo_world_def)
  note t = main_authentication_failure [of ?w "ApiError ''invalid_client''"
      "?w\<lparr>responses := [Inr example_page], calls := calls ?w @ [CurrentUser]\<rparr>"
      "ApiError ''invalid_client''" "[Inr example_page]"]
  from t [THEN conjunct2, THEN conjunct1, THEN mp, OF conjI [OF g r], THEN conjunct1]
  have i: "SpotifyCollector_init SCOPES ?w
      = (Raised (ApiError ''invalid_client''),
         ?w\<lparr>responses := [Inr example_page], calls := calls ?w @ [CurrentUser]\<rparr>)" .
  from t [THEN conjunct1, THEN mp, OF conjI [OF g i], THEN conjunct1]
  have m: "main ?w = (Returned (), log_msg ERROR ''Authentication failed: %s''
      [ArgErr (ApiError ''invalid_client'')]
      (?w\<lparr>responses := [Inr example_page], calls := calls ?w @ [CurrentUser]\<rparr>))" .
  from main_authentication_failure [of demo_world _ _ _ _ "RuntimeError (missing_message ''SPOTIPY_CLIENT_ID'')",
      THEN conjunct2, THEN conjunct2, THEN mp, OF c]
  have k: "main demo_world = (Raised (RuntimeError (missing_message ''SPOTIPY_CLIENT_ID'')), demo_world)" .
  from g m c k show ?thesis
    by (simp add: log_msg_def demo_world_def)
qed

section \<open>Recently played\<close>

lemma recently_played_loop_length:
  "recently_played_loop items acc = Inr processed \<Longrightarrow> length processed = length acc + length items"
proof (induction items arbitrary: acc)
  case Nil
  then show ?case by simp
next
  case (Cons row items)
  from Cons.prems obtain t r where
    "dict_get (py_or row (JObj [])) ''track'' JNull = Inr t"
    "recently_played_record row (py_or t (JObj [])) = Inr r"
    "recently_played_loop items (acc @ [r]) = Inr processed"
    by (auto simp: bindE_Inr_iff Let_def)
  from Cons.IH [OF this(3)] show ?case by simp
qed

lemma artists_field_played_total: "wf_played_track t \<Longrightarrow> \<exists>x. artists_field t key = Inr x"
proof -
  assume wf: "wf_played_track t"
  then obtain as where as: "dict_get t ''artists'' (JList []) = Inr (JList as)" "list_all is_obj as"
    by (auto simp: wf_played_track_def split: sum.splits json.splits)
  from mapE_get_total [OF as(2), of key] obtain vs where "mapE (\<lambda>a. dict_get a key JNull) as = Inr vs"
    by blast
  with as(1) show ?thesis
    by (simp add: artists_field_def)
qed

lemma empty_track_fields:
  "dict_get (JObj []) k d = Inr d"
  "artists_field (JObj []) k = Inr (JList [])"
  "nested_get (JObj []) outer inner = Inr JNull"
  by (simp_all add: artists_field_def nested_get_def py_or_def)

lemma wf_played_track_empty: "wf_played_track (JObj [])"
  by (simp add: wf_played_track_def is_obj_def obj_or_empty_def)

lemma recently_played_record_total:
  assumes "is_obj row" "dict_get row ''context'' JNull = Inr c" "obj_or_empty c" "wf_played_track t"
  shows "\<exists>r. recently_played_record row t = Inr r"
proof -
  from assms(4) have t: "is_obj t"
    by (simp add: wf_played_track_def)
  from assms(4) obtain a where a: "dict_get t ''album'' JNull = Inr a" "obj_or_empty a"
    by (auto simp: wf_played_track_def split: sum.splits)
  obtain v1 where v1: "dict_get row ''played_at'' JNull = Inr v1"
    using dict_get_obj [OF assms(1)] by blast
  obtain v2 where v2: "dict_get t ''id'' JNull = Inr v2"
    using dict_get_obj [OF t] by blast
  obtain v3 where v3: "dict_get t ''name'' JNull = Inr v3"
    using dict_get_obj [OF t] by blast
  obtain v4 where v4: "artists_field t ''id'' = Inr v4"
    using artists_field_played_total [OF assms(4)] by blast
  obtain v5 where v5: "artists_field t ''name'' = Inr v5"
    using artists_field_played_total [OF assms(4)] by blast
  obtain v6 where v6: "nested_get t ''album'' ''id'' = Inr v6"
    using nested_get_total [OF t a] by blast
  obtain v7 where v7: "nested_get t ''album'' ''name'' = Inr v7"
    using nested_get_total [OF t a] by blast
  obtain v8 where v8: "nested_get row ''context'' ''type'' = Inr v8"
    using nested_get_total [OF assms(1,2,3)] by blast
  obtain v9 where v9: "nested_get row ''context'' ''uri'' = Inr v9"
    using nested_get_total [OF assms(1,2,3)] by blast
  show ?thesis
    unfolding recently_played_record_def
    by (simp only: v1 v2 v3 v4 v5 v6 v7 v8 v9 bindE.simps) blast
qed

lemma recently_played_loop_total:
  "list_all wf_played_row items \<Longrightarrow> \<exists>processed. recently_played_loop items acc = Inr processed"
proof (induction items arbitrary: acc)
  case Nil
  then show ?case by simp
next
  case (Cons row items)
  from Cons.prems have wfr: "wf_played_row row" and rest: "list_all wf_played_row items"
    by simp_all
  from wfr have row: "is_obj row"
    by (simp add: wf_played_row_def)
  from wfr obtain t c where t: "dict_get row ''track'' JNull = Inr t" "\<not> truthy t \<or> wf_played_track t"
      and c: "dict_get row ''context'' JNull = Inr c" "obj_or_empty c"
    by (auto simp: wf_played_row_def split: sum.splits)
  from row have ro: "py_or row (JObj []) = row \<or> row = JObj []"
    by (cases row) (auto simp: py_or_def is_obj_def)
  then have d: "dict_get (py_or row (JObj [])) ''track'' JNull = Inr t"
    using t(1) by (auto simp: py_or_def)
  have "wf_played_track (py_or t (JObj []))"
    using t(2) wf_played_track_empty by (auto simp: py_or_def)
  from recently_played_record_total [OF row c this] obtain r where
    "recently_played_record row (py_or t (JObj [])) = Inr r"
    by blast
  then show ?case
    using d Cons.IH [OF rest, of "acc @ [r]"] by (simp add: Let_def)
qed

lemma trackless_played_record:
  assumes "recently_played_record row (JObj []) = Inr r"
  shows "getitem r ''track_id'' = Inr JNull \<and> getitem r ''track_name'' = Inr JNull
    \<and> getitem r ''artist_ids'' = Inr (JList []) \<and> getitem r ''artist_names'' = Inr (JList [])
    \<and> getitem r ''album_id'' = Inr JNull \<and> getitem r ''album_name'' = Inr JNull"
  using assms unfolding recently_played_record_def empty_track_fields bindE_Inr_iff
  by auto

lemma trackless_row_record: "recently_played_loop [trackless_row] [] = Inr [trackless_record]"
  by (simp add: trackless_row_def trackless_record_def recently_played_record_def py_or_def
      empty_track_fields nested_get_def)

lemma bindW_ReturnedD:
  assumes "bindW m f w = (Returned y, w')"
  shows "\<exists>x w1. m w = (Returned x, w1) \<and> f x w1 = (Returned y, w')"
proof -
  obtain out w1 where m: "m w = (out, w1)"
    by (cases "m w")
  with assms show ?thesis
    by (cases out) (auto simp: bindW_def)
qed

lemma liftE_ReturnedD: "liftE x w = (Returned y, w') \<Longrightarrow> x = Inr y \<and> w' = w"
  by (cases x) auto

lemma collect_recently_played_returned:
  assumes "collect_recently_played w = (Returned processed, w')"
  shows "\<exists>r rest items. responses w = Inr r # rest \<and> played_items r = Inr items
    \<and> recently_played_loop items [] = Inr processed"
proof -
  let ?w0 = "log_msg INFO ''Fetching recently played tracks (last 50) ...'' [] w"
  from assms have "bindW (sp_call (RecentlyPlayed 50)) (\<lambda>r.
     bindW (liftE (played_items r)) (\<lambda>items.
     bindW (liftE (recently_played_loop items [])) (\<lambda>processed.
     bindW (dumpW (JList processed) ''recently_played'') (\<lambda>_.
     bindW (logW INFO ''Recently played count: %d'' [ArgInt (int (length processed))]) (\<lambda>_.
     returnW processed))))) ?w0 = (Returned processed, w')"
    by (simp add: collect_recently_played_def bindW_logW played_items_def)
  from bindW_ReturnedD [OF this] obtain r w1 where
    c: "sp_call (RecentlyPlayed 50) ?w0 = (Returned r, w1)"
    and k1: "bindW (liftE (played_items r)) (\<lambda>items.
     bindW (liftE (recently_played_loop items [])) (\<lambda>processed.
     bindW (dumpW (JList processed) ''recently_played'') (\<lambda>_.
     bindW (logW INFO ''Recently played count: %d'' [ArgInt (int (length processed))]) (\<lambda>_.
     returnW processed)))) w1 = (Returned processed, w')"
    by blast
  from bindW_ReturnedD [OF k1] obtain items w2 where
    i: "liftE (played_items r) w1 = (Returned items, w2)"
    and k2: "bindW (liftE (recently_played_loop items [])) (\<lambda>processed.
     bindW (dumpW (JList processed) ''recently_played'') (\<lambda>_.
     bindW (logW INFO ''Recently played count: %d'' [ArgInt (int (length processed))]) (\<lambda>_.
     returnW processed))) w2 = (Returned processed, w')"
    by blast
  from bindW_ReturnedD [OF k2] obtain p w3 where
    l: "liftE (recently_played_loop items []) w2 = (Returned p, w3)"
    and k3: "bindW (dumpW (JList p) ''recently_played'') (\<lambda>_.
     bindW (logW INFO ''Recently played count: %d'' [ArgInt (int (length p))]) (\<lambda>_.
     returnW p)) w3 = (Returned processed, w')"
    by blast
  from k3 have "p = processed"
    by (simp add: bindW_dumpW bindW_logW returnW_def)
  with liftE_ReturnedD [OF l] have loop: "recently_played_loop items [] = Inr processed"
    by simp
  from liftE_ReturnedD [OF i] have items: "played_items r = Inr items"
    by simp
  from sp_call_ReturnedD [OF c] obtain rest where "responses w = Inr r # rest"
    by (auto simp: log_msg_fields)
  with items loop show ?thesis
    by blast
qed

lemma collect_recently_played_run:
  assumes "responses w = Inr r # rest" "played_items r = Inr items"
    "recently_played_loop items [] = Inr processed"
  shows "collect_recently_played w =
     (Returned processed,
      log_msg INFO ''Recently played count: %d'' [ArgInt (int (length processed))]
        (snd (dump_json (JList processed) ''recently_played''
           ((log_msg INFO ''Fetching recently played tracks (last 50) ...'' [] w)
              \<lparr>responses := rest, calls := calls w @ [RecentlyPlayed 50]\<rparr>))))"
proof -
  let ?w0 = "log_msg INFO ''Fetching recently played tracks (last 50) ...'' [] w"
  have c: "sp_call (RecentlyPlayed 50) ?w0
      = (Returned r, ?w0\<lparr>responses := rest, calls := calls w @ [RecentlyPlayed 50]\<rparr>)"
    using assms(1) sp_call_Inr [of ?w0 r rest "RecentlyPlayed 50"] by (simp add: log_msg_fields)
  have i: "bindE (dict_get (py_or r (JObj [])) ''items'' (JList [])) py_iter = Inr items"
    using assms(2) by (simp add: played_items_def)
  show ?thesis
    unfolding collect_recently_played_def
    by (simp add: bindW_logW bindW_Returned [where m = "sp_call (RecentlyPlayed 50)", OF c]
        i assms(3) bindW_liftE_Inr bindW_dumpW returnW_def)
qed

lemma played_payload_items: "played_items played_payload = Inr [trackless_row]"
  by (simp add: played_items_def played_payload_def py_or_def)

lemma trackless_dropped_elsewhere:
  assumes "is_obj row" "\<not> has_track row"
  shows "saved_tracks_loop [row] [] = Inr []" "playlist_tracks_loop pl_id [row] [] = Inr []"
proof -
  from assms(1) obtain kvs where row: "row = JObj kvs"
    by (cases row) (simp_all add: is_obj_def)
  obtain t where t: "dict_get row ''track'' JNull = Inr t"
    using dict_get_obj [OF assms(1)] by blast
  with assms(2) have f: "\<not> truthy t"
    by (simp add: has_track_def)
  then have p: "py_or t (JObj []) = JObj []"
    by (simp add: py_or_def)
  show "saved_tracks_loop [row] [] = Inr []"
    by (simp add: t p)
  have "dict_get (py_or row (JObj [])) ''track'' JNull = Inr t \<or> (kvs = [] \<and> t = JNull)"
    using t row by (auto simp: py_or_def)
  then have "\<exists>t'. dict_get (py_or row (JObj [])) ''track'' JNull = Inr t' \<and> \<not> truthy t'"
    using f row by (auto simp: py_or_def)
  then obtain t' where "dict_get (py_or row (JObj [])) ''track'' JNull = Inr t'" "py_or t' (JObj []) = JObj []"
    by (auto simp: py_or_def)
  then show "playlist_tracks_loop pl_id [row] [] = Inr []"
    by simp
qed

text \<open>
  C10, as amended. The recently played extraction filters nothing: whenever it
  returns, it returns as many records as the response has items, and it does return
  on every response whose items are well-formed rows. An item whose track is empty or
  absent yields a record whose \<open>track_id\<close>, \<open>track_name\<close>, \<open>album_id\<close> and
  \<open>album_name\<close> are null and whose \<open>artist_ids\<close> and \<open>artist_names\<close> are empty
  lists; the normalisations of the saved tracks and of the playlist tracks drop such
  an item.
\<close>

theorem recently_played_unfiltered:
  "(\<forall>processed. recently_played_loop items [] = Inr processed \<longrightarrow> length processed = length items)
   \<and> (\<forall>processed w'. collect_recently_played w = (Returned processed, w') \<longrightarrow>
        (\<exists>r rest its. responses w = Inr r # rest \<and> played_items r = Inr its
           \<and> length processed = length its))
   \<and> (responses w = Inr r # rest \<and> played_items r = Inr items \<and> list_all wf_played_row items \<longrightarrow>
        (\<exists>processed w'. collect_recently_played w = (Returned processed, w')
           \<and> length processed = length items))
   \<and> (\<forall>row rec. recently_played_record row (JObj []) = Inr rec \<longrightarrow>
        getitem rec ''track_id'' = Inr JNull \<and> getitem rec ''track_name'' = Inr JNull
        \<and> getitem rec ''artist_ids'' = Inr (JList []) \<and> getitem rec ''artist_names'' = Inr (JList [])
        \<and> getitem rec ''album_id'' = Inr JNull \<and> getitem rec ''album_name'' = Inr JNull)
   \<and> (\<forall>row. is_obj row \<and> \<not> has_track row \<longrightarrow>
        saved_tracks_loop [row] [] = Inr [] \<and> playlist_tracks_loop pl_id [row] [] = Inr []
        \<and> (\<forall>processed. recently_played_loop [row] [] = Inr processed \<longrightarrow> length processed = 1))"
proof (intro conjI allI impI)
  fix processed
  assume "recently_played_loop items [] = Inr processed"
  from recently_played_loop_length [OF this] show "length processed = length items"
    by simp
next
  fix processed w'
  assume "collect_recently_played w = (Returned processed, w')"
  from collect_recently_played_returned [OF this] obtain r rest its where
    x: "responses w = Inr r # rest" "played_items r = Inr its"
      "recently_played_loop its [] = Inr processed"
    by blast
  from recently_played_loop_length [OF x(3)] have "length processed = length its"
    by simp
  with x(1,2) show "\<exists>r rest its. responses w = Inr r # rest \<and> played_items r = Inr its
           \<and> length processed = length its"
    by blast
next
  assume a: "responses w = Inr r # rest \<and> played_items r = Inr items \<and> list_all wf_played_row items"
  then obtain processed where p: "recently_played_loop items [] = Inr processed"
    using recently_played_loop_total [of items "[]"] by blast
  from recently_played_loop_length [OF p] have "length processed = length items"
    by simp
  with collect_recently_played_run [OF _ _ p, of w r rest] a
  show "\<exists>processed w'. collect_recently_played w = (Returned processed, w')
           \<and> length processed = length items"
    by blast
next
  fix row rec
  assume "recently_played_record row (JObj []) = Inr rec"
  note t = trackless_played_record [OF this]
  from t show "getitem rec ''track_id'' = Inr JNull" by (elim conjE)
  from t show "getitem rec ''track_name'' = Inr JNull" by (elim conjE)
  from t show "getitem rec ''artist_ids'' = Inr (JList [])" by (elim conjE)
  from t show "getitem rec ''artist_names'' = Inr (JList [])" by (elim conjE)
  from t show "getitem rec ''album_id'' = Inr JNull" by (elim conjE)
  from t show "getitem rec ''album_name'' = Inr JNull" by (elim conjE)
next
  fix row
  assume a: "is_obj row \<and> \<not> has_track row"
  then show "saved_tracks_loop [row] [] = Inr []"
    using trackless_dropped_elsewhere(1) by blast
  from a show "playlist_tracks_loop pl_id [row] [] = Inr []"
    using trackless_dropped_elsewhere(2) by blast
next
  fix row processed
  assume "recently_played_loop [row] [] = Inr processed"
  from recently_played_loop_length [OF this] show "length processed = 1"
    by simp
qed

theorem recently_played_unfiltered_witness:
  "collect_recently_played (demo_world\<lparr>responses := [Inr played_payload]\<rparr>)
     = (Returned [trackless_record],
        log_msg INFO ''Recently played count: %d'' [ArgInt 1]
          (snd (dump_json (JList [trackless_record]) ''recently_played''
             ((log_msg INFO ''Fetching recently played tracks (last 50) ...'' []
                 (demo_world\<lparr>responses := [Inr played_payload]\<rparr>))
                \<lparr>responses := [], calls := [RecentlyPlayed 50]\<rparr>))))
   \<and> played_items played_payload = Inr [trackless_row]
   \<and> list_all wf_played_row [trackless_row]
   \<and> is_obj trackless_row \<and> \<not> has_track trackless_row
   \<and> saved_tracks_loop [trackless_row] [] = Inr []
   \<and> playlist_tracks_loop (JStr ''p9'') [trackless_row] [] = Inr []
   \<and> recently_played_loop [trackless_row] [] = Inr [trackless_record]"
proof -
  let ?w = "demo_world\<lparr>responses := [Inr played_payload]\<rparr>"
  have wf: "list_all wf_played_row [trackless_row]"
    by (simp add: wf_played_row_def trackless_row_def is_obj_def obj_or_empty_def)
  have o: "is_obj trackless_row \<and> \<not> has_track trackless_row"
    by (simp add: is_obj_def has_track_def trackless_row_def)
  have run: "collect_recently_played ?w
     = (Returned [trackless_record],
        log_msg INFO ''Recently played count: %d'' [ArgInt 1]
          (snd (dump_json (JList [trackless_record]) ''recently_played''
             ((log_msg INFO ''Fetching recently played tracks (last 50) ...'' [] ?w)
                \<lparr>responses := [], calls := [RecentlyPlayed 50]\<rparr>))))"
    using collect_recently_played_run [OF _ played_payload_items trackless_row_record, of ?w "[]"]
    by (simp add: demo_world_def)
  note t = recently_played_unfiltered [of "[trackless_row]" ?w played_payload "[]" "JStr ''p9''"]
  from t [THEN conjunct2, THEN conjunct2, THEN conjunct2, THEN conjunct2, rule_format, OF o]
    t [THEN conjunct1, rule_format, OF trackless_row_record]
    run played_payload_items wf o trackless_row_record
  show ?thesis
    by simp
qed

text \<open>
  The claim C10 as first stated says that the track-derived fields of such a record
  are all null. The response with the single item
  \<^verbatim>\<open>{"played_at": "2024-03-03T10:00:00Z", "track": null}\<close> yields one record whose
  \<open>artist_ids\<close> and \<open>artist_names\<close> are empty lists, not null.
\<close>

theorem recently_played_trackless_counterexample:
  "fst (collect_recently_played (demo_world\<lparr>responses := [Inr played_payload]\<rparr>))
     = Returned [trackless_record]
   \<and> played_payload = JObj [(''items'', JList [JObj [(''played_at'', JStr ''2024-03-03T10:00:00Z''),
        (''track'', JNull)]])]
   \<and> getitem trackless_record ''artist_ids'' = Inr (JList [])
   \<and> getitem trackless_record ''artist_names'' = Inr (JList [])
   \<and> getitem trackless_record ''artist_ids'' \<noteq> Inr JNull
   \<and> getitem trackless_record ''artist_names'' \<noteq> Inr JNull"
proof -
  have "collect_recently_played (demo_world\<lparr>responses := [Inr played_payload]\<rparr>)
     = (Returned [trackless_record],
        log_msg INFO ''Recently played count: %d'' [ArgInt (int (length [trackless_record]))]
          (snd (dump_json (JList [trackless_record]) ''recently_played''
             ((log_msg INFO ''Fetching recently played tracks (last 50) ...'' []
                 (demo_world\<lparr>responses := [Inr played_payload]\<rparr>))
                \<lparr>responses := [],
                  calls := calls (demo_world\<lparr>responses := [Inr played_payload]\<rparr>) @ [RecentlyPlayed 50]\<rparr>))))"
    by (rule collect_recently_played_run [OF _ played_payload_items trackless_row_record]) simp
  then show ?thesis
    by (simp add: trackless_record_def played_payload_def trackless_row_def)
qed

lemma recently_played_null_item: "recently_played_loop [JNull] [] = Inl AttributeError"
  by (simp add: py_or_def recently_played_record_def)

section \<open>Snapshot files\<close>

lemma demo_strftime: "strftime (clock demo_world (ticks demo_world)) = ''20240102_030405''"
  by (simp add: demo_world_def strftime_def zero_pad_def digit_char_def)

lemma absolute_prefix_path:
  "snapshot_path (CHR ''/'' # rest) w
     = CHR ''/'' # rest @ ''_'' @ strftime (clock w (ticks w)) @ ''.json''"
  by (simp add: snapshot_path_def path_join_def)

text \<open>
  C9. The claim, like the docstring of \<open>dump_json\<close>, places every snapshot in the
  output directory, named by the prefix, an underscore, the time stamp and
  \<^verbatim>\<open>.json\<close>. The code joins the prefix onto the directory without looking at it, and
  an absolute prefix replaces the directory. With the prefix \<^verbatim>\<open>/tmp/x\<close>, at the clock
  reading 2024-01-02 03:04:05, \<open>dump_json\<close> writes the file
  \<^verbatim>\<open>/tmp/x_20240102_030405.json\<close>, whose directory is \<^verbatim>\<open>/tmp\<close> and not the
  output directory; a completed audio-features extraction called with that prefix
  writes its one snapshot there.
\<close>

theorem snapshot_outside_output_directory:
  "fst (dump_json (JList []) ''/tmp/x'' demo_world) = ''/tmp/x_20240102_030405.json''
   \<and> writes (snd (dump_json (JList []) ''/tmp/x'' demo_world))
       = [(''/tmp/x_20240102_030405.json'', JList [])]
   \<and> dirname ''/tmp/x_20240102_030405.json'' = ''/tmp''
   \<and> DATA_DIR = ''spotify_data''
   \<and> dirname (fst (dump_json (JList []) ''/tmp/x'' demo_world)) \<noteq> DATA_DIR
   \<and> fst (collect_audio_features_for_tracks [JStr ''t1''] ''/tmp/x''
          (demo_world\<lparr>responses := [Inr (JList [feat_a])]\<rparr>)) = Returned [feat_a]
   \<and> writes (snd (collect_audio_features_for_tracks [JStr ''t1''] ''/tmp/x''
          (demo_world\<lparr>responses := [Inr (JList [feat_a])]\<rparr>)))
       = [(''/tmp/x_20240102_030405.json'', JList [feat_a])]"
proof -
  let ?w = "demo_world\<lparr>responses := [Inr (JList [feat_a])]\<rparr>"
  have p: "snapshot_path ''/tmp/x'' demo_world = ''/tmp/x_20240102_030405.json''"
    using absolute_prefix_path [of "''tmp/x''" demo_world] by (simp add: demo_strftime)
  have a: "fst (dump_json (JList []) ''/tmp/x'' demo_world) = ''/tmp/x_20240102_030405.json''"
    by (simp only: dump_json_fields p)
  have b: "writes (snd (dump_json (JList []) ''/tmp/x'' demo_world))
       = [(''/tmp/x_20240102_030405.json'', JList [])]"
    by (simp only: dump_json_fields p) (simp add: demo_world_def)
  have c: "dirname ''/tmp/x_20240102_030405.json'' = ''/tmp''"
    by (simp add: dirname_def)
  have d: "DATA_DIR = ''spotify_data''"
    by (simp add: DATA_DIR_def)
  have v: "filter truthy [JStr ''t1''] = [JStr ''t1'']"
    by simp
  have g: "chunk_from [JStr ''t1''] 100 0 = [[JStr ''t1'']]"
    by (simp add: chunk_from.simps)
  have t: "truthy feat_a"
    by (simp add: feat_a_def)
  have m: "mapE batch_items [JList [feat_a]] = Inr [[feat_a]]"
    by (simp add: batch_items_def py_or_def)
  have run: "collect_audio_features_for_tracks [JStr ''t1''] ''/tmp/x'' ?w =
     (Returned (concat (map (filter truthy) [[feat_a]])),
      log_msg INFO ''Audio features rows: %d''
        [ArgInt (int (length (concat (map (filter truthy) [[feat_a]]))))]
        (snd (dump_json (JList (concat (map (filter truthy) [[feat_a]]))) ''/tmp/x''
           ((log_msg INFO ''Fetching audio features for %d tracks ...''
               [ArgInt (int (length (filter truthy [JStr ''t1''])))] ?w)
            \<lparr>responses := [],
              calls := calls ?w @ map AudioFeatures (chunk_from (filter truthy [JStr ''t1'']) 100 0)\<rparr>))))"
    by (rule collect_audio_features_run [where feats = "[JList [feat_a]]"])
       (simp_all only: v g m, simp_all)
  have e: "fst (collect_audio_features_for_tracks [JStr ''t1''] ''/tmp/x'' ?w) = Returned [feat_a]"
    by (simp only: run fst_conv) (simp add: t)
  have q: "snapshot_path ''/tmp/x''
      ((log_msg INFO ''Fetching audio features for %d tracks ...''
               [ArgInt (int (length (filter truthy [JStr ''t1''])))] ?w)
            \<lparr>responses := [],
              calls := calls ?w @ map AudioFeatures (chunk_from (filter truthy [JStr ''t1'']) 100 0)\<rparr>)
       = ''/tmp/x_20240102_030405.json''"
    using p by (simp add: snapshot_path_def log_msg_fields demo_world_def)
  have f: "writes (snd (collect_audio_features_for_tracks [JStr ''t1''] ''/tmp/x'' ?w))
       = [(''/tmp/x_20240102_030405.json'', JList [feat_a])]"
    by (simp only: run snd_conv log_msg_fields dump_json_fields q)
       (simp add: t log_msg_fields demo_world_def)
  have n: "dirname (fst (dump_json (JList []) ''/tmp/x'' demo_world)) \<noteq> DATA_DIR"
    by (simp only: a c d) simp
  from a b c d n e f show ?thesis
    by (intro conjI)
qed

end
